theory Spec2Isabelle
  imports Complex_Main "HOL-Library.Word" "HOL-Library.AList" "HOL-Library.Log_Nat"
begin

section \<open>Errors\<close>

text \<open>
  A Go \<^verbatim>\<open>error\<close> value is modelled by the way it was built. \<open>Msg s\<close> is an error whose
  text is the fixed string \<open>s\<close> (\<^verbatim>\<open>errors.New\<close>, or \<^verbatim>\<open>fmt.Errorf\<close> without verbs);
  \<open>Wrap p e\<close> is \<^verbatim>\<open>fmt.Errorf(p + "%w", e)\<close>; \<open>FmtQ p s q\<close> and \<open>FmtD p n q\<close> are
  \<^verbatim>\<open>fmt.Errorf\<close> with one \<^verbatim>\<open>%q\<close> (a string) or \<^verbatim>\<open>%d\<close> (an integer) between the texts
  \<open>p\<close> and \<open>q\<close>; \<open>HTTPStatus p n b\<close> is the "... failed (HTTP %d): %s" error of the
  transports; \<open>Connect c s\<close> is a \<^verbatim>\<open>*connect.Error\<close> with code \<open>c\<close>.
\<close>

datatype Code = CodeAlreadyExists | CodeUnavailable | CodeUnimplemented | CodeUnknown

datatype error =
    Msg string
  | Wrap string error
  | FmtQ string string string
  | FmtD string int string
  | HTTPStatus string int string
  | Connect Code string

text \<open>\<^verbatim>\<open>errorf\<close> of client.go prefixes the format with "dome: ".\<close>

definition errorf :: "string \<Rightarrow> string" where
  "errorf format = ''dome: '' @ format"

text \<open>\<^verbatim>\<open>connect.CodeOf\<close>: the code of a connect error, \<^verbatim>\<open>CodeUnknown\<close> for any other error.\<close>

fun CodeOf :: "error \<Rightarrow> Code" where
  "CodeOf (Connect c m) = c"
| "CodeOf (Wrap p e) = CodeOf e"
| "CodeOf e = CodeUnknown"

section \<open>Credentials (credentials.go)\<close>

record agentCredentials =
  APIURL :: string
  VaultAddr :: string
  AuthMethod :: string
  RoleID :: string
  SecretID :: string
  KubeAuthRole :: string
  IAMAuthRole :: string
  OIDCRoleName :: string

text \<open>
  The Go standard library is not part of the repository. The functions of it that
  \<^verbatim>\<open>decodeToken\<close> and the options call are parameters of the model:
  \<open>TrimSpace\<close> is \<^verbatim>\<open>strings.TrimSpace\<close>, \<open>DecodeString\<close> is
  \<^verbatim>\<open>base64.StdEncoding.DecodeString\<close> (\<open>None\<close> when it returns an error),
  \<open>Unmarshal\<close> is \<^verbatim>\<open>json.Unmarshal\<close> into an \<^verbatim>\<open>agentCredentials\<close> (\<open>None\<close> when it
  returns an error), \<open>ReadFile\<close> is \<^verbatim>\<open>os.ReadFile\<close>, \<open>Quote\<close> is the \<^verbatim>\<open>%q\<close> verb of
  \<^verbatim>\<open>fmt.Sprintf\<close> on a string and \<open>MarshalMap\<close> is \<^verbatim>\<open>json.Marshal\<close> of a map of strings.
\<close>

record golib =
  TrimSpace :: "string \<Rightarrow> string"
  DecodeString :: "string \<Rightarrow> string option"
  Unmarshal :: "string \<Rightarrow> agentCredentials option"
  ReadFile :: "string \<Rightarrow> error + string"
  Quote :: "string \<Rightarrow> string"
  MarshalMap :: "(string \<times> string) list \<Rightarrow> string"

text \<open>
  \<^verbatim>\<open>decodeToken\<close> returns the pair (descriptor, error) as the Go function does:
  \<open>None\<close> is \<^verbatim>\<open>nil\<close>.
\<close>

definition decodeToken :: "golib \<Rightarrow> string \<Rightarrow> agentCredentials option \<times> error option" where
  "decodeToken L token0 =
     (let token = TrimSpace L token0 in
      if token = [] then (None, None)
      else (case DecodeString L token of
              None \<Rightarrow> (None, None)
            | Some data \<Rightarrow>
               (case Unmarshal L data of
                  None \<Rightarrow> (None, None)
                | Some creds \<Rightarrow>
                    if APIURL creds = [] \<and> VaultAddr creds = [] then (None, None)
                    else (Some creds, None))))"

text \<open>
  The words of the specification for a blob that is not a structured credential: it is
  empty after trimming, or not valid base64, or not valid JSON after decoding, or JSON
  that has neither \<^verbatim>\<open>api_url\<close> nor \<^verbatim>\<open>vault_addr\<close>.
\<close>

definition opaque_token :: "golib \<Rightarrow> string \<Rightarrow> bool" where
  "opaque_token L token0 =
     (TrimSpace L token0 = []
      \<or> DecodeString L (TrimSpace L token0) = None
      \<or> (\<exists>data. DecodeString L (TrimSpace L token0) = Some data \<and> Unmarshal L data = None)
      \<or> (\<exists>data creds. DecodeString L (TrimSpace L token0) = Some data
            \<and> Unmarshal L data = Some creds \<and> APIURL creds = [] \<and> VaultAddr creds = []))"

section \<open>Options (options.go)\<close>

text \<open>
  Durations are integers counting nanoseconds. The logger is not modelled. The fields
  \<open>gracefulDegradation\<close>, \<open>disablePolicy\<close> and \<open>policyRefresh\<close> are read by the client
  (\<^verbatim>\<open>c.config.gracefulDegradation\<close>, \<^verbatim>\<open>c.config.disablePolicy\<close>,
  \<^verbatim>\<open>c.config.policyRefresh\<close>); \<^verbatim>\<open>defaultConfig\<close> leaves them at Go's zero values, and
  \<^verbatim>\<open>options.go\<close> has no option that sets them.
\<close>

definition Second :: int where
  "Second = 1000000000"

definition Minute :: int where
  "Minute = 60 * Second"

definition DefaultAPIURL :: string where
  "DefaultAPIURL = ''http://localhost:8080''"

definition DefaultHeartbeatInterval :: int where
  "DefaultHeartbeatInterval = 30 * Second"

record clientConfig =
  apiURL :: string
  apiKey :: string
  credentials :: string
  heartbeatInterval :: int
  disableHeartbeat :: bool
  gracefulDegradation :: bool
  disablePolicy :: bool
  policyRefresh :: int

datatype Option =
    WithCredentials string
  | WithCredentialsFile string
  | WithAPIKey string
  | WithAPIURL string
  | WithHeartbeatInterval int
  | WithoutHeartbeat

fun applyOption :: "golib \<Rightarrow> Option \<Rightarrow> clientConfig \<Rightarrow> clientConfig" where
  "applyOption L (WithCredentials token) c = c\<lparr>credentials := token\<rparr>"
| "applyOption L (WithCredentialsFile path) c =
     (case ReadFile L path of Inr data \<Rightarrow> c\<lparr>credentials := data\<rparr> | Inl err \<Rightarrow> c)"
| "applyOption L (WithAPIKey key) c = c\<lparr>apiKey := key\<rparr>"
| "applyOption L (WithAPIURL url) c = c\<lparr>apiURL := url\<rparr>"
| "applyOption L (WithHeartbeatInterval d) c = (if d > 0 then c\<lparr>heartbeatInterval := d\<rparr> else c)"
| "applyOption L WithoutHeartbeat c = c\<lparr>disableHeartbeat := True\<rparr>"

definition defaultConfig :: clientConfig where
  "defaultConfig =
     \<lparr>apiURL = DefaultAPIURL, apiKey = [], credentials = [],
      heartbeatInterval = DefaultHeartbeatInterval, disableHeartbeat = False,
      gracefulDegradation = False, disablePolicy = False, policyRefresh = 0\<rparr>"

text \<open>The loop \<^verbatim>\<open>for _, o := range opts { o(&cfg) }\<close>.\<close>

fun applyOptions :: "golib \<Rightarrow> Option list \<Rightarrow> clientConfig \<Rightarrow> clientConfig" where
  "applyOptions L [] c = c"
| "applyOptions L (opt # opts) c = applyOptions L opts (applyOption L opt c)"

section \<open>Transport configurations\<close>

record tokenexchange_Config =
  te_APIURL :: string
  te_RoleID :: string
  te_SecretID :: string

record vault_AuthConfig =
  va_VaultAddr :: string
  va_Role :: string
  va_OIDCRole :: string
  va_AuthMethod :: string
  va_ServiceAccountTokenPath :: string
  va_AppRoleID :: string
  va_AppSecretID :: string

text \<open>
  The round tripper that \<^verbatim>\<open>NewClient\<close> installs: a token-exchange transport, a Vault
  transport, or a \<^verbatim>\<open>bearerTransport\<close> with its static token.
\<close>

datatype roundTripper =
    TokenExchangeTransport tokenexchange_Config
  | VaultTransport vault_AuthConfig
  | BearerTransport string

text \<open>\<^verbatim>\<open>vault.NewTransport\<close> fills in the defaults of the configuration.\<close>

definition vault_NewTransport :: "vault_AuthConfig \<Rightarrow> vault_AuthConfig" where
  "vault_NewTransport config =
     (let c1 = (if va_AuthMethod config = [] then config\<lparr>va_AuthMethod := ''kubernetes''\<rparr>
                else config)
      in if va_ServiceAccountTokenPath c1 = []
         then c1\<lparr>va_ServiceAccountTokenPath :=
                    ''/var/run/secrets/kubernetes.io/serviceaccount/token''\<rparr>
         else c1)"

definition emptyVaultConfig :: vault_AuthConfig where
  "emptyVaultConfig =
     \<lparr>va_VaultAddr = [], va_Role = [], va_OIDCRole = [], va_AuthMethod = [],
      va_ServiceAccountTokenPath = [], va_AppRoleID = [], va_AppSecretID = []\<rparr>"

text \<open>The \<^verbatim>\<open>switch creds.AuthMethod\<close> that fills the Vault configuration.\<close>

definition vaultConfigOf :: "agentCredentials \<Rightarrow> vault_AuthConfig" where
  "vaultConfigOf creds =
     (let vaultCfg = emptyVaultConfig\<lparr>va_VaultAddr := VaultAddr creds,
                                       va_OIDCRole := OIDCRoleName creds\<rparr>
      in if AuthMethod creds = ''approle''
         then vaultCfg\<lparr>va_AuthMethod := ''approle'', va_AppRoleID := RoleID creds,
                        va_AppSecretID := SecretID creds\<rparr>
         else if AuthMethod creds = ''kubernetes''
         then vaultCfg\<lparr>va_AuthMethod := ''kubernetes'', va_Role := KubeAuthRole creds\<rparr>
         else vaultCfg\<lparr>va_AuthMethod := ''approle'', va_AppRoleID := RoleID creds,
                        va_AppSecretID := SecretID creds\<rparr>)"

section \<open>Policy engine (internal/policy/engine.go)\<close>

text \<open>
  Go maps are association lists with distinct keys; \<^verbatim>\<open>m[k] = v\<close> is \<open>AList.update k v\<close>.
  A \<^verbatim>\<open>range\<close> loop over a map visits the entries in some order: the order of the list.
  Cedar values are the strings and sets of strings the engine builds.
\<close>

datatype cedar_Value = String string | Set "string list"

type_synonym cedar_Record = "(string \<times> cedar_Value) list"

record cedar_EntityUID =
  uid_Type :: string
  uid_ID :: string

record cedar_Entity =
  en_UID :: cedar_EntityUID
  en_Attributes :: cedar_Record

record cedar_Request =
  rq_Principal :: cedar_EntityUID
  rq_Action :: cedar_EntityUID
  rq_Resource :: cedar_EntityUID
  rq_Context :: cedar_Record

datatype cedar_Decision = Allow | Deny

text \<open>
  Of a \<^verbatim>\<open>cedar.Diagnostic\<close> the engine reads the policy ids of the reasons and the texts
  of the errors.
\<close>

record cedar_Diagnostic =
  Reasons :: "string list"
  Errors :: "string list"

text \<open>
  The Cedar library is an external collaborator, a parameter of the model over the type
  \<open>'p\<close> of compiled policies. \<open>NewPolicySetFromBytes\<close> parses one file and returns the
  parsed policies with their ids, in the order in which \<^verbatim>\<open>parsed.All()\<close> yields them.
\<close>

record 'p cedar =
  NewPolicySetFromBytes :: "string \<Rightarrow> string \<Rightarrow> error + (string \<times> 'p) list"
  Authorize :: "(string \<times> 'p) list \<Rightarrow> (cedar_EntityUID \<times> cedar_Entity) list
                  \<Rightarrow> cedar_Request \<Rightarrow> cedar_Decision \<times> cedar_Diagnostic"

definition EntityTypeAgent :: string where "EntityTypeAgent = ''Dome::Agent''"
definition EntityTypeAction :: string where "EntityTypeAction = ''Dome::Action''"
definition EntityTypeMCPTool :: string where "EntityTypeMCPTool = ''Dome::MCPTool''"
definition EntityTypeLLMModel :: string where "EntityTypeLLMModel = ''Dome::LLMModel''"
definition EntityTypeCredential :: string where "EntityTypeCredential = ''Dome::Credential''"
definition EntityTypeResource :: string where "EntityTypeResource = ''Dome::Resource''"

record policy_Decision =
  Allow_d :: bool
  Reason_d :: string
  PolicyVersion_d :: string

record AgentContext =
  ac_ID :: string
  ac_TenantID :: string
  ac_Namespace :: string
  ac_Capabilities :: "string list"
  ac_AllowedTools :: "string list"
  ac_DeniedTools :: "string list"

record CheckInput =
  ci_Action :: string
  ci_Resource :: string
  ci_ResourceType :: string
  ci_RequiredCapability :: string
  ci_Context :: "(string \<times> string) list"

record 'p Engine =
  policySet :: "(string \<times> 'p) list"
  policyVersion :: string

definition NewEngine :: "'p Engine" where
  "NewEngine = \<lparr>policySet = [], policyVersion = []\<rparr>"

text \<open>
  The inner loop of \<^verbatim>\<open>LoadBundle\<close>: every parsed policy is added to the new set under
  the name \<^verbatim>\<open>fmt.Sprintf("%s:%s", filename, name)\<close>.
\<close>

fun addParsed :: "string \<Rightarrow> (string \<times> 'p) list \<Rightarrow> (string \<times> 'p) list \<Rightarrow> (string \<times> 'p) list" where
  "addParsed filename [] newPolicySet = newPolicySet"
| "addParsed filename ((name, p) # parsed) newPolicySet =
     addParsed filename parsed (AList.update (filename @ '':'' @ name) p newPolicySet)"

text \<open>The outer loop: the first file that does not parse ends the load with its error.\<close>

fun loadFiles :: "'p cedar \<Rightarrow> (string \<times> string) list \<Rightarrow> (string \<times> 'p) list
                    \<Rightarrow> error + (string \<times> 'p) list" where
  "loadFiles C [] newPolicySet = Inr newPolicySet"
| "loadFiles C ((filename, content) # policies) newPolicySet =
     (case NewPolicySetFromBytes C filename content of
        Inl err \<Rightarrow> Inl (Wrap (''parse '' @ filename @ '': '') err)
      | Inr parsed \<Rightarrow> loadFiles C policies (addParsed filename parsed newPolicySet))"

text \<open>
  \<^verbatim>\<open>LoadBundle\<close> returns the error (\<open>None\<close> is \<^verbatim>\<open>nil\<close>) and the engine after the call.
  The two assignments under \<^verbatim>\<open>e.mu.Lock()\<close> are one step of the model.
\<close>

definition LoadBundle :: "'p cedar \<Rightarrow> (string \<times> string) list \<Rightarrow> string \<Rightarrow> 'p Engine
                            \<Rightarrow> error option \<times> 'p Engine" where
  "LoadBundle C policies version e =
     (case loadFiles C policies [] of
        Inl err \<Rightarrow> (Some err, e)
      | Inr newPolicySet \<Rightarrow> (None, e\<lparr>policySet := newPolicySet, policyVersion := version\<rparr>))"

text \<open>
  The words of the specification for the new set: each parsed policy of each file,
  keyed \<open>filename:original-id\<close>.
\<close>

definition rekeyed :: "'p cedar \<Rightarrow> (string \<times> string) list \<Rightarrow> (string \<times> 'p) list" where
  "rekeyed C policies =
     concat (map (\<lambda>(filename, content).
        case NewPolicySetFromBytes C filename content of
          Inl err \<Rightarrow> []
        | Inr parsed \<Rightarrow> map (\<lambda>(name, p). (filename @ '':'' @ name, p)) parsed) policies)"

definition PolicyCount :: "'p Engine \<Rightarrow> nat" where
  "PolicyCount e = length (policySet e)"

definition HasPolicies :: "'p Engine \<Rightarrow> bool" where
  "HasPolicies e = (PolicyCount e > 0)"

definition HasPrefix :: "string \<Rightarrow> string \<Rightarrow> bool" where
  "HasPrefix s p = (take (length p) s = p)"

definition mapResource :: "CheckInput \<Rightarrow> cedar_EntityUID" where
  "mapResource input =
     (let resType = (if ci_ResourceType input = [] then
                       (if HasPrefix (ci_Action input) ''mcp:'' then ''mcp''
                        else if HasPrefix (ci_Action input) ''llm:'' then ''llm''
                        else if HasPrefix (ci_Action input) ''credential:'' then ''credential''
                        else [])
                     else ci_ResourceType input);
          entityType = (if resType = ''mcp'' then EntityTypeMCPTool
                        else if resType = ''llm'' then EntityTypeLLMModel
                        else if resType = ''credential'' then EntityTypeCredential
                        else EntityTypeResource)
      in \<lparr>uid_Type = entityType, uid_ID = ci_Resource input\<rparr>)"

definition toStringSet :: "string list \<Rightarrow> cedar_Value" where
  "toStringSet values = Set values"

definition buildAgentAttributes :: "AgentContext \<Rightarrow> cedar_Record" where
  "buildAgentAttributes agent =
     (let attrs0 = [(''id'', String (ac_ID agent))];
          attrs1 = (if ac_TenantID agent \<noteq> []
                    then AList.update ''tenant_id'' (String (ac_TenantID agent)) attrs0
                    else attrs0);
          attrs2 = (if ac_Namespace agent \<noteq> []
                    then AList.update ''namespace'' (String (ac_Namespace agent)) attrs1
                    else attrs1);
          attrs3 = AList.update ''capabilities'' (toStringSet (ac_Capabilities agent)) attrs2;
          attrs4 = AList.update ''allowed_tools'' (toStringSet (ac_AllowedTools agent)) attrs3
      in AList.update ''denied_tools'' (toStringSet (ac_DeniedTools agent)) attrs4)"

definition buildResourceAttributes :: "CheckInput \<Rightarrow> cedar_Record" where
  "buildResourceAttributes input =
     (let attrs = [(''path'', String (ci_Resource input))]
      in if ci_ResourceType input \<noteq> []
         then AList.update ''type'' (String (ci_ResourceType input)) attrs
         else attrs)"

definition extractReason :: "cedar_Decision \<Rightarrow> cedar_Diagnostic \<Rightarrow> string" where
  "extractReason decision diagnostic =
     (if decision = Allow then
        (case Reasons diagnostic of
           r # rs \<Rightarrow> ''allowed by policy: '' @ r
         | [] \<Rightarrow> ''allowed'')
      else (case Reasons diagnostic of
              r # rs \<Rightarrow> ''denied by policy: '' @ r
            | [] \<Rightarrow> (case Errors diagnostic of
                       e # es \<Rightarrow> ''policy error: '' @ e
                     | [] \<Rightarrow> ''denied: no matching permit policy'')))"

definition Evaluate :: "'p cedar \<Rightarrow> 'p Engine \<Rightarrow> AgentContext \<Rightarrow> CheckInput \<Rightarrow> policy_Decision" where
  "Evaluate C e agent input =
     (let principal = \<lparr>uid_Type = EntityTypeAgent, uid_ID = ac_ID agent\<rparr>;
          action = \<lparr>uid_Type = EntityTypeAction, uid_ID = ci_Action input\<rparr>;
          resource = mapResource input;
          contextMap0 = (if ci_RequiredCapability input \<noteq> []
                         then [(''required_capability'', String (ci_RequiredCapability input))]
                         else []);
          contextMap = fold (\<lambda>(k, v). AList.update k (String v)) (ci_Context input) contextMap0;
          req = \<lparr>rq_Principal = principal, rq_Action = action, rq_Resource = resource,
                 rq_Context = contextMap\<rparr>;
          agentEntity = \<lparr>en_UID = principal, en_Attributes = buildAgentAttributes agent\<rparr>;
          resourceEntity = \<lparr>en_UID = resource, en_Attributes = buildResourceAttributes input\<rparr>;
          entities = AList.update resource resourceEntity [(principal, agentEntity)];
          (decision, diagnostic) = Authorize C (policySet e) entities req
      in \<lparr>Allow_d = (decision = Allow), Reason_d = extractReason decision diagnostic,
          PolicyVersion_d = policyVersion e\<rparr>)"

section \<open>HTTP\<close>

text \<open>
  Headers are association lists under their canonical names; \<^verbatim>\<open>Header.Get\<close> of an absent
  header is the empty string. A response body is the bytes the server sent and, when the
  stream breaks after them, the read error.
\<close>

record http_Request =
  hr_Method :: string
  hr_URL :: string
  hr_Header :: "(string \<times> string) list"
  hr_Body :: string

record http_Response =
  StatusCode :: int
  Header :: "(string \<times> string) list"
  Body :: string
  BodyErr :: "error option"

definition Header_Get :: "(string \<times> string) list \<Rightarrow> string \<Rightarrow> string" where
  "Header_Get h k = (case map_of h k of Some v \<Rightarrow> v | None \<Rightarrow> [])"

definition Header_Set :: "string \<Rightarrow> string \<Rightarrow> http_Request \<Rightarrow> http_Request" where
  "Header_Set k v req = req\<lparr>hr_Header := AList.update k v (hr_Header req)\<rparr>"

text \<open>
  \<^verbatim>\<open>io.ReadAll(io.LimitReader(resp.Body, n))\<close>: the limited reader reports the end of the
  data once \<open>n\<close> bytes are read, so a read error after them is never seen.
\<close>

definition ReadAllLimit :: "nat \<Rightarrow> http_Response \<Rightarrow> error + string" where
  "ReadAllLimit n resp =
     (if n \<le> length (Body resp) then Inr (take n (Body resp))
      else (case BodyErr resp of None \<Rightarrow> Inr (Body resp) | Some err \<Rightarrow> Inl err))"

text \<open>
  The network and the JSON decoders are parameters: \<open>NewRequestErr\<close> is the error of
  \<^verbatim>\<open>http.NewRequest\<close> for a method and a URL, \<open>RoundTrip\<close> is the base round tripper,
  \<open>Do\<close> is \<^verbatim>\<open>httpClient.Do\<close>, and each decoder reads one response type.
\<close>

record BundleResponse =
  Version :: string
  Hash :: string
  Policies :: "(string \<times> string) list"

record tokenResult =
  AccessToken :: string
  TokenType :: string
  ExpiresIn :: int

record httpenv =
  NewRequestErr :: "string \<Rightarrow> string \<Rightarrow> error option"
  RoundTrip :: "http_Request \<Rightarrow> error + http_Response"
  Do :: "http_Request \<Rightarrow> error + http_Response"
  UnmarshalBundle :: "string \<Rightarrow> error + BundleResponse"
  DecodeTokenResult :: "http_Response \<Rightarrow> error + tokenResult"
  DecodeAuthResponse :: "http_Response \<Rightarrow> error + string \<times> int"
  DecodeOIDCResponse :: "http_Response \<Rightarrow> error + string \<times> int"

section \<open>Policy fetcher (internal/policy, Fetcher)\<close>

record Fetcher =
  baseURL :: string
  tenantID_f :: string
  etag :: string

record FetchResult =
  Bundle :: "BundleResponse option"
  Changed :: bool

definition NewFetcher :: "string \<Rightarrow> string \<Rightarrow> Fetcher" where
  "NewFetcher base tenant = \<lparr>baseURL = base, tenantID_f = tenant, etag = []\<rparr>"

text \<open>The request that \<^verbatim>\<open>Fetch\<close> sends, once \<^verbatim>\<open>http.NewRequest\<close> has accepted the URL.\<close>

definition fetchRequest :: "Fetcher \<Rightarrow> http_Request" where
  "fetchRequest f =
     (let req = Header_Set ''X-Tenant-ID'' (tenantID_f f)
                  \<lparr>hr_Method = ''GET'', hr_URL = baseURL f @ ''/api/v1/policies/bundle'',
                   hr_Header = [], hr_Body = []\<rparr>
      in if etag f \<noteq> [] then Header_Set ''If-None-Match'' (etag f) req else req)"

definition Fetch :: "httpenv \<Rightarrow> Fetcher \<Rightarrow> (error + FetchResult) \<times> Fetcher" where
  "Fetch H f =
     (case NewRequestErr H ''GET'' (baseURL f @ ''/api/v1/policies/bundle'') of
        Some err \<Rightarrow> (Inl (Wrap ''create request: '' err), f)
      | None \<Rightarrow>
         (case Do H (fetchRequest f) of
            Inl err \<Rightarrow> (Inl (Wrap ''fetch bundle: '' err), f)
          | Inr resp \<Rightarrow>
              if StatusCode resp = 304 then (Inr \<lparr>Bundle = None, Changed = False\<rparr>, f)
              else if StatusCode resp = 404 then (Inr \<lparr>Bundle = None, Changed = False\<rparr>, f)
              else if StatusCode resp = 200 then
                (case ReadAllLimit (50 * 2 ^ 20) resp of
                   Inl err \<Rightarrow> (Inl (Wrap ''read bundle body: '' err), f)
                 | Inr body \<Rightarrow>
                    (case UnmarshalBundle H body of
                       Inl err \<Rightarrow> (Inl (Wrap ''decode bundle: '' err), f)
                     | Inr bundle \<Rightarrow>
                         (Inr \<lparr>Bundle = Some bundle, Changed = True\<rparr>,
                          if Header_Get (Header resp) ''ETag'' \<noteq> []
                          then f\<lparr>etag := Header_Get (Header resp) ''ETag''\<rparr> else f)))
              else (Inl (FmtD ''unexpected status '' (StatusCode resp)
                           '' from policy bundle API''), f)))"

section \<open>Token-exchange transport (internal/tokenexchange)\<close>

text \<open>
  An instant is an integer counting nanoseconds; \<^verbatim>\<open>t.Add(d)\<close> is \<open>t + d\<close> and
  \<^verbatim>\<open>a.Before(b)\<close> is \<open>a < b\<close>. A \<^verbatim>\<open>time.Duration\<close> is a signed 64-bit count of
  nanoseconds: \<open>int64\<close> is the value that a 64-bit register holds after an arithmetic
  operation whose exact result is \<open>x\<close>. Go's \<^verbatim>\<open>int\<close> is taken to be 64 bits wide.
\<close>

definition int64 :: "int \<Rightarrow> int" where
  "int64 x = sint (word_of_int x :: 64 word)"

record te_Transport =
  te_config :: tokenexchange_Config
  te_token :: string
  te_expiry :: int


text \<open>\<^verbatim>\<open>strings.TrimRight(s, "/")\<close>.\<close>

definition TrimRightSlash :: "string \<Rightarrow> string" where
  "TrimRightSlash s = rev (dropWhile (\<lambda>c. c = CHR ''/'') (rev s))"

definition tokenEndpoint :: "te_Transport \<Rightarrow> string" where
  "tokenEndpoint t = TrimRightSlash (te_APIURL (te_config t)) @ ''/api/v1/auth/token''"

text \<open>
  \<^verbatim>\<open>exchange\<close> returns the token and its lifetime in seconds, or the error; the second
  component lists the requests it handed to the base round tripper.
\<close>

definition exchange :: "golib \<Rightarrow> httpenv \<Rightarrow> te_Transport \<Rightarrow> (error + string \<times> int) \<times> http_Request list" where
  "exchange L H t =
     (let body = MarshalMap L [(''grant_type'', ''approle''),
                               (''role_id'', te_RoleID (te_config t)),
                               (''secret_id'', te_SecretID (te_config t))]
      in case NewRequestErr H ''POST'' (tokenEndpoint t) of
           Some err \<Rightarrow> (Inl err, [])
         | None \<Rightarrow>
            (let req = Header_Set ''Content-Type'' ''application/json''
                         \<lparr>hr_Method = ''POST'', hr_URL = tokenEndpoint t, hr_Header = [],
                          hr_Body = body\<rparr>
             in case RoundTrip H req of
                  Inl err \<Rightarrow> (Inl (Wrap ''token exchange request: '' err), [req])
                | Inr resp \<Rightarrow>
                    if StatusCode resp \<noteq> 200
                    then (Inl (HTTPStatus ''token exchange failed'' (StatusCode resp) (Body resp)),
                          [req])
                    else (case DecodeTokenResult H resp of
                            Inl err \<Rightarrow>
                              (Inl (Wrap ''decode token exchange response: '' err), [req])
                          | Inr result \<Rightarrow>
                              if AccessToken result = []
                              then (Inl (Msg ''token exchange response missing access_token''),
                                    [req])
                              else (Inr (AccessToken result, ExpiresIn result), [req]))))"

text \<open>
  \<^verbatim>\<open>getToken\<close> runs between \<^verbatim>\<open>t.mu.Lock()\<close> and the deferred unlock: one step of the
  model, from the transport before the call to the transport after it. \<open>now\<close> is the
  one reading of \<^verbatim>\<open>t.nowFunc()\<close>.
\<close>

definition getToken :: "golib \<Rightarrow> httpenv \<Rightarrow> int \<Rightarrow> te_Transport
                          \<Rightarrow> (error + string) \<times> te_Transport \<times> http_Request list" where
  "getToken L H now t =
     (if te_token t \<noteq> [] \<and> now + 30 * Second < te_expiry t then (Inr (te_token t), t, [])
      else (case exchange L H t of
              (Inl err, reqs) \<Rightarrow> (Inl err, t, reqs)
            | (Inr (token, expiresIn), reqs) \<Rightarrow>
                (Inr token,
                 t\<lparr>te_token := token, te_expiry := now + int64 (expiresIn * Second)\<rparr>,
                 reqs)))"

text \<open>
  \<^verbatim>\<open>RoundTrip\<close> of the transport: the response or the error, the transport afterwards,
  and the requests handed to the base round tripper.
\<close>

definition te_RoundTrip :: "golib \<Rightarrow> httpenv \<Rightarrow> int \<Rightarrow> http_Request \<Rightarrow> te_Transport
                              \<Rightarrow> (error + http_Response) \<times> te_Transport \<times> http_Request list" where
  "te_RoundTrip L H now req t =
     (if Header_Get (hr_Header req) ''Authorization'' \<noteq> [] then (RoundTrip H req, t, [req])
      else if hr_URL req = tokenEndpoint t then (RoundTrip H req, t, [req])
      else (case getToken L H now t of
              (Inl err, t', reqs) \<Rightarrow> (Inl (Wrap ''dome: token exchange: '' err), t', reqs)
            | (Inr token, t', reqs) \<Rightarrow>
                (let clone = Header_Set ''Authorization'' (''Bearer '' @ token) req
                 in (RoundTrip H clone, t', reqs @ [clone]))))"

section \<open>Vault transport (internal/vault/transport.go)\<close>

record va_Transport =
  va_config :: vault_AuthConfig
  OidcToken :: string
  OidcExpiry :: int
  vaultToken :: string
  vaultExp :: int

text \<open>
  The transport reads \<^verbatim>\<open>time.Now()\<close> at four places; each reading is a field of the
  clock: in the check of \<^verbatim>\<open>getOIDCToken\<close>, in the check of \<^verbatim>\<open>ensureVaultToken\<close>, after
  the login response in \<^verbatim>\<open>vaultLogin\<close>, and after the token response in
  \<^verbatim>\<open>requestOIDCToken\<close>.
\<close>

record vault_clock =
  nowCheck :: int
  nowEnsure :: int
  nowLogin :: int
  nowOIDC :: int

definition dq :: string where
  "dq = [char_of (34 :: nat)]"

text \<open>
  \<^verbatim>\<open>vaultLogin\<close> returns the error (\<open>None\<close> is \<^verbatim>\<open>nil\<close>), the transport afterwards and
  the requests sent.
\<close>

definition vaultLogin :: "httpenv \<Rightarrow> vault_clock \<Rightarrow> string \<Rightarrow> string \<Rightarrow> va_Transport
                            \<Rightarrow> error option \<times> va_Transport \<times> http_Request list" where
  "vaultLogin H K path body t =
     (let url = va_VaultAddr (va_config t) @ ''/v1/'' @ path
      in case NewRequestErr H ''POST'' url of
           Some err \<Rightarrow> (Some err, t, [])
         | None \<Rightarrow>
            (let req = Header_Set ''Content-Type'' ''application/json''
                         \<lparr>hr_Method = ''POST'', hr_URL = url, hr_Header = [], hr_Body = body\<rparr>
             in case RoundTrip H req of
                  Inl err \<Rightarrow> (Some (Wrap ''vault login request: '' err), t, [req])
                | Inr resp \<Rightarrow>
                    if StatusCode resp \<noteq> 200
                    then (Some (HTTPStatus ''vault login failed'' (StatusCode resp) (Body resp)),
                          t, [req])
                    else (case DecodeAuthResponse H resp of
                            Inl err \<Rightarrow>
                              (Some (Wrap ''decode vault login response: '' err), t, [req])
                          | Inr (clientToken, leaseDuration) \<Rightarrow>
                              if clientToken = []
                              then (Some (Msg ''vault login response missing client_token''),
                                    t, [req])
                              else (None,
                                    t\<lparr>vaultToken := clientToken,
                                      vaultExp := nowLogin K + int64 (leaseDuration * Second)\<rparr>,
                                    [req]))))"

definition loginKubernetes :: "golib \<Rightarrow> httpenv \<Rightarrow> vault_clock \<Rightarrow> va_Transport
                                 \<Rightarrow> error option \<times> va_Transport \<times> http_Request list" where
  "loginKubernetes L H K t =
     (case ReadFile L (va_ServiceAccountTokenPath (va_config t)) of
        Inl err \<Rightarrow> (Some (Wrap ''read SA token: '' err), t, [])
      | Inr saTokenBytes \<Rightarrow>
          vaultLogin H K ''auth/kubernetes/login''
            (''{'' @ dq @ ''role'' @ dq @ '':'' @ Quote L (va_Role (va_config t)) @ '','' @
             dq @ ''jwt'' @ dq @ '':'' @ Quote L (TrimSpace L saTokenBytes) @ ''}'') t)"

definition loginAppRole :: "golib \<Rightarrow> httpenv \<Rightarrow> vault_clock \<Rightarrow> va_Transport
                              \<Rightarrow> error option \<times> va_Transport \<times> http_Request list" where
  "loginAppRole L H K t =
     vaultLogin H K ''auth/approle/login''
       (''{'' @ dq @ ''role_id'' @ dq @ '':'' @ Quote L (va_AppRoleID (va_config t)) @ '','' @
        dq @ ''secret_id'' @ dq @ '':'' @ Quote L (va_AppSecretID (va_config t)) @ ''}'') t"

definition ensureVaultToken :: "golib \<Rightarrow> httpenv \<Rightarrow> vault_clock \<Rightarrow> va_Transport
                                  \<Rightarrow> error option \<times> va_Transport \<times> http_Request list" where
  "ensureVaultToken L H K t =
     (if vaultToken t \<noteq> [] \<and> nowEnsure K + 60 * Second < vaultExp t then (None, t, [])
      else if va_AuthMethod (va_config t) = ''kubernetes'' then loginKubernetes L H K t
      else if va_AuthMethod (va_config t) = ''approle'' then loginAppRole L H K t
      else (Some (FmtQ ''unsupported vault auth method: '' (va_AuthMethod (va_config t)) []),
            t, []))"

text \<open>
  \<^verbatim>\<open>requestOIDCToken\<close> returns the token with its expiry, an instant, or the error.
\<close>

definition requestOIDCToken :: "httpenv \<Rightarrow> vault_clock \<Rightarrow> va_Transport
                                  \<Rightarrow> (error + string \<times> int) \<times> http_Request list" where
  "requestOIDCToken H K t =
     (let url = va_VaultAddr (va_config t) @ ''/v1/identity/oidc/token/'' @
                va_OIDCRole (va_config t)
      in case NewRequestErr H ''GET'' url of
           Some err \<Rightarrow> (Inl err, [])
         | None \<Rightarrow>
            (let req = Header_Set ''X-Vault-Token'' (vaultToken t)
                         \<lparr>hr_Method = ''GET'', hr_URL = url, hr_Header = [], hr_Body = []\<rparr>
             in case RoundTrip H req of
                  Inl err \<Rightarrow> (Inl (Wrap ''vault OIDC token request: '' err), [req])
                | Inr resp \<Rightarrow>
                    if StatusCode resp \<noteq> 200
                    then (Inl (HTTPStatus ''vault OIDC token failed'' (StatusCode resp)
                                 (Body resp)), [req])
                    else (case DecodeOIDCResponse H resp of
                            Inl err \<Rightarrow> (Inl (Wrap ''decode vault OIDC response: '' err), [req])
                          | Inr (token, ttl) \<Rightarrow>
                              if token = []
                              then (Inl (Msg ''vault OIDC response missing token''), [req])
                              else (Inr (token, nowOIDC K + int64 (ttl * Second)), [req]))))"

text \<open>
  \<^verbatim>\<open>getOIDCToken\<close> runs between \<^verbatim>\<open>t.Mu.Lock()\<close> and the deferred unlock: one step of
  the model.
\<close>

definition getOIDCToken :: "golib \<Rightarrow> httpenv \<Rightarrow> vault_clock \<Rightarrow> va_Transport
                              \<Rightarrow> (error + string) \<times> va_Transport \<times> http_Request list" where
  "getOIDCToken L H K t =
     (if OidcToken t \<noteq> [] \<and> nowCheck K + 30 * Second < OidcExpiry t
      then (Inr (OidcToken t), t, [])
      else (case ensureVaultToken L H K t of
              (Some err, t1, reqs1) \<Rightarrow> (Inl err, t1, reqs1)
            | (None, t1, reqs1) \<Rightarrow>
               (case requestOIDCToken H K t1 of
                  (Inl err, reqs2) \<Rightarrow> (Inl err, t1, reqs1 @ reqs2)
                | (Inr (token, expiry), reqs2) \<Rightarrow>
                    (Inr token, t1\<lparr>OidcToken := token, OidcExpiry := expiry\<rparr>,
                     reqs1 @ reqs2))))"

definition va_RoundTrip :: "golib \<Rightarrow> httpenv \<Rightarrow> vault_clock \<Rightarrow> http_Request \<Rightarrow> va_Transport
                              \<Rightarrow> (error + http_Response) \<times> va_Transport \<times> http_Request list" where
  "va_RoundTrip L H K req t =
     (if Header_Get (hr_Header req) ''Authorization'' \<noteq> [] then (RoundTrip H req, t, [req])
      else (case getOIDCToken L H K t of
              (Inl err, t', reqs) \<Rightarrow> (Inl (Wrap ''dome: vault auth: '' err), t', reqs)
            | (Inr token, t', reqs) \<Rightarrow>
                (let clone = Header_Set ''Authorization'' (''Bearer '' @ token) req
                 in (RoundTrip H clone, t', reqs @ [clone]))))"

section \<open>Control-plane RPC\<close>

text \<open>
  The messages of the generated RPC stub, as far as the client reads them. The status of
  an agent is the name of its enum value, as \<^verbatim>\<open>String()\<close> prints it.
\<close>

record Agent =
  ag_Id :: string
  ag_Name :: string
  ag_Status :: string
  ag_Capabilities :: "string list"
  ag_Metadata :: "(string \<times> string) list"

record RegisterAgentRequest =
  rr_Name :: string
  rr_Capabilities :: "string list"
  rr_Metadata :: "(string \<times> string) list"
  rr_ParentId :: "string option"

record RegisterAgentResponse =
  GetAgent :: "Agent option"
  GetToken :: string

text \<open>
  The control plane is a parameter: each operation takes the state \<open>'b\<close> of the backend
  and returns the response or the error together with the state afterwards.
\<close>

record 'b AgentRegistryClient =
  RegisterAgent :: "RegisterAgentRequest \<Rightarrow> 'b \<Rightarrow> (error + RegisterAgentResponse) \<times> 'b"
  ListAgents :: "int \<Rightarrow> 'b \<Rightarrow> (error + Agent list) \<times> 'b"
  ReportEvent :: "string \<Rightarrow> string \<Rightarrow> 'b \<Rightarrow> error option \<times> 'b"

section \<open>Client (client.go)\<close>

record AgentInfo =
  ID :: string
  Name :: string
  Status :: string
  Capabilities :: "string list"
  Metadata :: "(string \<times> string) list"
  Token :: string

record StartOptions =
  so_Name :: string
  so_Description :: string
  so_ParentID :: string
  so_Capabilities :: "string list"
  so_Metadata :: "(string \<times> string) list"

text \<open>
  What the client does besides changing its fields is recorded in order: the RPCs it
  issues, the goroutines it launches, and its handling of the background worker
  (\<^verbatim>\<open>c.cancel()\<close>, \<^verbatim>\<open><-c.stopped\<close>, \<^verbatim>\<open>c.policySyncer.Stop()\<close>).
\<close>

datatype worker =
    HeartbeatLoop string
  | BackgroundRegistration StartOptions
  | EventEmitter string string

datatype effect =
    Call_RegisterAgent RegisterAgentRequest
  | Call_ListAgents int
  | Call_ReportEvent string string
  | Go worker
  | Cancel
  | AwaitStopped
  | SyncerStop

text \<open>
  \<open>cancel\<close> is the cancel handle: \<open>None\<close> is \<^verbatim>\<open>nil\<close>, \<open>Some w\<close> is the handle of the context
  that the worker \<open>w\<close> was launched with. \<open>policySyncer\<close> says whether the field is
  non-nil. \<open>httpClient\<close> is the round tripper that the RPC stub and the policy fetcher
  share.
\<close>

record 'p Client =
  config :: clientConfig
  httpClient :: roundTripper
  agentID :: string
  tenantID :: string
  cancel :: "worker option"
  policyEngine :: "'p Engine"
  policySyncer :: bool
  agentCtx :: AgentContext
  pendingAuthEvents :: "string list"
  trace :: "effect list"

definition authRequiredMessage :: string where
  "authRequiredMessage =
     ''dome: authentication required (use WithCredentials, WithAPIKey, DOME_AGENT_TOKEN, DOME_API_KEY, or DOME_TOKEN)''"

definition emptyAgentContext :: AgentContext where
  "emptyAgentContext =
     \<lparr>ac_ID = [], ac_TenantID = [], ac_Namespace = [], ac_Capabilities = [],
      ac_AllowedTools = [], ac_DeniedTools = []\<rparr>"

text \<open>
  \<^verbatim>\<open>NewClient\<close>. \<open>getenv\<close> is \<^verbatim>\<open>os.Getenv\<close>: the empty string for an unset variable.
  The local \<open>transport\<close> is \<open>None\<close> while the Go variable is \<^verbatim>\<open>nil\<close>.
\<close>

definition NewClient :: "golib \<Rightarrow> (string \<Rightarrow> string) \<Rightarrow> Option list \<Rightarrow> error + 'p Client" where
  "NewClient L getenv opts =
     (let cfg = applyOptions L opts defaultConfig;
          credToken = (if credentials cfg = [] then getenv ''DOME_AGENT_TOKEN''
                       else credentials cfg);
          decoded =
            (if credToken \<noteq> [] then
               (case decodeToken L credToken of
                  (creds, Some err) \<Rightarrow> Inl (Wrap (errorf ''decode credentials: '') err)
                | (Some creds, None) \<Rightarrow>
                    if APIURL creds \<noteq> [] \<and> AuthMethod creds = ''approle''
                    then Inr (Some (TokenExchangeTransport
                           \<lparr>te_APIURL = APIURL creds, te_RoleID = RoleID creds,
                            te_SecretID = SecretID creds\<rparr>))
                    else if VaultAddr creds \<noteq> [] \<and> OIDCRoleName creds \<noteq> []
                    then Inr (Some (VaultTransport (vault_NewTransport (vaultConfigOf creds))))
                    else Inr (Some (BearerTransport credToken))
                | (None, None) \<Rightarrow> Inr None)
             else Inr None)
      in case decoded of
           Inl err \<Rightarrow> Inl err
         | Inr transport \<Rightarrow>
            (let resolved =
               (case transport of
                  Some tr \<Rightarrow> Inr tr
                | None \<Rightarrow>
                   (let apiKey1 = apiKey cfg;
                        apiKey2 = (if apiKey1 = [] then getenv ''DOME_API_KEY'' else apiKey1);
                        apiKey3 = (if apiKey2 = [] then getenv ''DOME_TOKEN'' else apiKey2)
                    in if apiKey3 = [] then Inl (Msg authRequiredMessage)
                       else Inr (BearerTransport apiKey3)))
             in case resolved of
                  Inl err \<Rightarrow> Inl err
                | Inr tr \<Rightarrow>
                    Inr \<lparr>config = cfg, httpClient = tr, agentID = [], tenantID = [],
                         cancel = None, policyEngine = NewEngine, policySyncer = False,
                         agentCtx = emptyAgentContext, pendingAuthEvents = [],
                         trace = []\<rparr>))"

text \<open>
  The auth event callback that \<^verbatim>\<open>NewClient\<close> hands to the transports. With an agent id
  it launches a goroutine that reports the event; without one it appends the event to
  the pending queue.
\<close>

definition authCallback :: "string \<Rightarrow> 'p Client \<Rightarrow> 'p Client" where
  "authCallback eventType c =
     (if agentID c \<noteq> []
      then c\<lparr>trace := trace c @ [Go (EventEmitter (agentID c) eventType)]\<rparr>
      else c\<lparr>pendingAuthEvents := pendingAuthEvents c @ [eventType]\<rparr>)"

definition AgentID :: "'p Client \<Rightarrow> string" where
  "AgentID c = agentID c"

definition setAgentID :: "string \<Rightarrow> 'p Client \<Rightarrow> 'p Client" where
  "setAgentID newID c = c\<lparr>agentID := newID\<rparr>"

section \<open>Waiting for the worker\<close>

text \<open>
  \<^verbatim>\<open>Close\<close>, \<^verbatim>\<open>startHeartbeat\<close> and \<^verbatim>\<open>startBackgroundRegistration\<close> hold \<^verbatim>\<open>c.mu\<close> while they
  cancel the running worker and wait on \<^verbatim>\<open>c.stopped\<close>, which the worker closes when it
  returns. A worker that stands in a \<^verbatim>\<open>select\<close> with \<^verbatim>\<open>ctx.Done()\<close>, or in an RPC, which ends
  with the context, or that has returned already, is \<open>Cancellable\<close>: the wait ends. A
  worker that stands at a call of \<^verbatim>\<open>c.mu.Lock()\<close> is \<open>AtLock\<close>: it waits for the mutex and
  the caller for the channel, and the call never returns. The background registration
  comes to such a call in \<^verbatim>\<open>c.setAgentID\<close> after a successful attempt and in \<^verbatim>\<open>c.AgentID\<close>
  before its heartbeat. Where the worker stands is the scheduler's choice and a parameter
  of these steps. A step that never returns has the value \<open>None\<close>.
\<close>

datatype standing = Cancellable | AtLock

section \<open>Events\<close>

text \<open>
  A state of the world is the client together with the backend. The result of the RPC
  is only logged, so it does not reach the client. The timestamp of the event is left
  out.
\<close>

definition reportEventForAgent ::
  "'b AgentRegistryClient \<Rightarrow> string \<Rightarrow> string \<Rightarrow> 'p Client \<times> 'b \<Rightarrow> 'p Client \<times> 'b" where
  "reportEventForAgent R agentId eventType w =
     (if agentId = [] then w
      else (case w of (c, b) \<Rightarrow>
              (c\<lparr>trace := trace c @ [Call_ReportEvent agentId eventType]\<rparr>,
               snd (ReportEvent R agentId eventType b))))"

definition reportEvent ::
  "'b AgentRegistryClient \<Rightarrow> string \<Rightarrow> 'p Client \<times> 'b \<Rightarrow> 'p Client \<times> 'b" where
  "reportEvent R eventType w = reportEventForAgent R (AgentID (fst w)) eventType w"

text \<open>
  \<^verbatim>\<open>Close\<close>, when it returns, returns its error (always \<^verbatim>\<open>nil\<close>) and the world afterwards.
  The whole body runs between \<^verbatim>\<open>c.mu.Lock()\<close> and the deferred unlock.
\<close>

definition Close ::
  "'b AgentRegistryClient \<Rightarrow> standing \<Rightarrow> 'p Client \<times> 'b
     \<Rightarrow> (error option \<times> 'p Client \<times> 'b) option" where
  "Close R s w =
     (case w of (c, b) \<Rightarrow>
        (let c1 = (if policySyncer c
                   then c\<lparr>trace := trace c @ [SyncerStop], policySyncer := False\<rparr>
                   else c)
         in case cancel c1 of
              Some wk \<Rightarrow>
                (case (if agentID c1 \<noteq> []
                       then reportEventForAgent R (agentID c1) ''agent.stopped'' (c1, b)
                       else (c1, b)) of
                   (c2, b2) \<Rightarrow>
                     if s = Cancellable
                     then Some (None,
                                c2\<lparr>trace := trace c2 @ [Cancel, AwaitStopped], cancel := None\<rparr>,
                                b2)
                     else None)
            | None \<Rightarrow> Some (None, c1, b)))"

section \<open>Heartbeat worker (heartbeat.go)\<close>

text \<open>
  \<^verbatim>\<open>stopWorker\<close> is the block \<^verbatim>\<open>if c.cancel != nil { c.cancel(); <-c.stopped }\<close> of
  \<^verbatim>\<open>startHeartbeat\<close> and \<^verbatim>\<open>startBackgroundRegistration\<close>.
\<close>

definition stopWorker :: "standing \<Rightarrow> 'p Client \<Rightarrow> 'p Client option" where
  "stopWorker s c =
     (case cancel c of
        Some wk \<Rightarrow>
          if s = Cancellable then Some (c\<lparr>trace := trace c @ [Cancel, AwaitStopped]\<rparr>)
          else None
      | None \<Rightarrow> Some c)"

text \<open>
  \<^verbatim>\<open>startHeartbeat\<close> stops a running worker, then launches the heartbeat goroutine. The
  loop of the goroutine runs beside the caller and is not part of the step.
\<close>

definition startHeartbeat :: "standing \<Rightarrow> string \<Rightarrow> 'p Client \<Rightarrow> 'p Client option" where
  "startHeartbeat s agentId c =
     (case stopWorker s c of
        None \<Rightarrow> None
      | Some c1 \<Rightarrow>
          Some (c1\<lparr>cancel := Some (HeartbeatLoop agentId),
                    trace := trace c1 @ [Go (HeartbeatLoop agentId)]\<rparr>))"

section \<open>Registration (agent.go)\<close>

definition emptyAgentInfo :: AgentInfo where
  "emptyAgentInfo =
     \<lparr>ID = [], Name = [], Status = [], Capabilities = [], Metadata = [], Token = []\<rparr>"

definition agentFromProto :: "Agent option \<Rightarrow> string \<Rightarrow> AgentInfo" where
  "agentFromProto a token =
     (case a of
        None \<Rightarrow> emptyAgentInfo
      | Some ag \<Rightarrow>
          \<lparr>ID = ag_Id ag, Name = ag_Name ag, Status = ag_Status ag,
           Capabilities = ag_Capabilities ag, Metadata = ag_Metadata ag, Token = token\<rparr>)"

text \<open>
  \<^verbatim>\<open>findExistingAgent\<close>: one \<^verbatim>\<open>ListAgents\<close> call with limit 100, then the first agent
  of the response whose name is the requested one.
\<close>

definition findExistingAgent ::
  "'b AgentRegistryClient \<Rightarrow> string \<Rightarrow> 'p Client \<times> 'b \<Rightarrow> (error + AgentInfo) \<times> 'p Client \<times> 'b" where
  "findExistingAgent R name w =
     (case w of (c, b) \<Rightarrow>
        (let c1 = c\<lparr>trace := trace c @ [Call_ListAgents 100]\<rparr>
         in case ListAgents R 100 b of
              (Inl err, b1) \<Rightarrow>
                (Inl (Wrap (errorf ''list agents for idempotent registration: '') err), c1, b1)
            | (Inr agents, b1) \<Rightarrow>
                (case find (\<lambda>a. ag_Name a = name) agents of
                   Some a \<Rightarrow> (Inr (agentFromProto (Some a) []), c1, b1)
                 | None \<Rightarrow>
                     (Inl (FmtQ (errorf ''agent '') name '' already exists but could not be found''),
                      c1, b1))))"

definition doRegister ::
  "'b AgentRegistryClient \<Rightarrow> StartOptions \<Rightarrow> 'p Client \<times> 'b \<Rightarrow> (error + AgentInfo) \<times> 'p Client \<times> 'b" where
  "doRegister R opts w =
     (case w of (c, b) \<Rightarrow>
        (let req = \<lparr>rr_Name = so_Name opts, rr_Capabilities = so_Capabilities opts,
                    rr_Metadata = so_Metadata opts,
                    rr_ParentId = (if so_ParentID opts \<noteq> [] then Some (so_ParentID opts)
                                   else None)\<rparr>;
             c1 = c\<lparr>trace := trace c @ [Call_RegisterAgent req]\<rparr>
         in case RegisterAgent R req b of
              (Inl err, b1) \<Rightarrow>
                if CodeOf err = CodeAlreadyExists then findExistingAgent R (so_Name opts) (c1, b1)
                else (Inl (Wrap (errorf ''register agent: '') err), c1, b1)
            | (Inr resp, b1) \<Rightarrow> (Inr (agentFromProto (GetAgent resp) (GetToken resp)), c1, b1)))"

text \<open>
  \<^verbatim>\<open>startBackgroundRegistration\<close> stops a running worker and launches the goroutine that
  retries the registration. \<open>registrationAttempt\<close> is the function that the goroutine
  hands to \<^verbatim>\<open>retryWithBackoff\<close>: one attempt, which sets the agent id when it succeeds.
\<close>

definition startBackgroundRegistration ::
  "standing \<Rightarrow> StartOptions \<Rightarrow> 'p Client \<Rightarrow> 'p Client option" where
  "startBackgroundRegistration s opts c =
     (case stopWorker s c of
        None \<Rightarrow> None
      | Some c1 \<Rightarrow>
          Some (c1\<lparr>cancel := Some (BackgroundRegistration opts),
                    trace := trace c1 @ [Go (BackgroundRegistration opts)]\<rparr>))"

definition registrationAttempt ::
  "'b AgentRegistryClient \<Rightarrow> StartOptions \<Rightarrow> 'p Client \<times> 'b \<Rightarrow> error option \<times> 'p Client \<times> 'b" where
  "registrationAttempt R opts w =
     (case doRegister R opts w of
        (Inl regErr, c1, b1) \<Rightarrow> (Some regErr, c1, b1)
      | (Inr info, c1, b1) \<Rightarrow> (None, setAgentID (ID info) c1, b1))"

text \<open>
  \<^verbatim>\<open>Start\<close>, when it returns, returns the identity or the error and the world afterwards.
\<close>

definition Start ::
  "'b AgentRegistryClient \<Rightarrow> standing \<Rightarrow> StartOptions \<Rightarrow> 'p Client \<times> 'b
     \<Rightarrow> ((error + AgentInfo) \<times> 'p Client \<times> 'b) option" where
  "Start R s opts w =
     (if so_Name opts = [] then Some (Inl (Msg (errorf ''agent name is required'')), w)
      else (case doRegister R opts w of
              (Inl err, c1, b1) \<Rightarrow>
                if gracefulDegradation (config c1)
                then (case startBackgroundRegistration s opts c1 of
                        None \<Rightarrow> None
                      | Some c2 \<Rightarrow> Some (Inr (emptyAgentInfo\<lparr>Name := so_Name opts\<rparr>), c2, b1))
                else Some (Inl err, c1, b1)
            | (Inr info, c1, b1) \<Rightarrow>
                (case reportEvent R ''agent.started'' (setAgentID (ID info) c1, b1) of
                   (c2, b2) \<Rightarrow>
                     if \<not> disableHeartbeat (config c2)
                     then (case startHeartbeat s (ID info) c2 of
                             None \<Rightarrow> None
                           | Some c3 \<Rightarrow> Some (Inr info, c3, b2))
                     else Some (Inr info, c2, b2))))"

section \<open>Policy check\<close>

record CheckRequest =
  cr_Action :: string
  cr_Resource :: string
  cr_ResourceType :: string
  cr_Context :: "(string \<times> string) list"

record Decision =
  Allowed :: bool
  Reason :: string
  PolicyVersion :: string

text \<open>\<^verbatim>\<open>Check\<close> returns the decision and its error, which is always \<^verbatim>\<open>nil\<close>.\<close>

definition Check :: "'p cedar \<Rightarrow> 'p Client \<Rightarrow> CheckRequest \<Rightarrow> Decision \<times> error option" where
  "Check C c req =
     (if disablePolicy (config c) \<or> \<not> HasPolicies (policyEngine c)
      then (\<lparr>Allowed = True, Reason = ''no policy bundle loaded'', PolicyVersion = []\<rparr>, None)
      else (let requiredCap = (case map_of (cr_Context req) ''required_capability'' of
                                 Some cap \<Rightarrow> cap
                               | None \<Rightarrow> cr_Action req);
                input = \<lparr>ci_Action = cr_Action req, ci_Resource = cr_Resource req,
                         ci_ResourceType = cr_ResourceType req,
                         ci_RequiredCapability = requiredCap, ci_Context = cr_Context req\<rparr>;
                d = Evaluate C (policyEngine c) (agentCtx c) input
            in (\<lparr>Allowed = Allow_d d, Reason = Reason_d d, PolicyVersion = PolicyVersion_d d\<rparr>,
                None)))"

section \<open>Backoff (agent.go)\<close>

text \<open>
  \<^verbatim>\<open>backoff\<close> computes in \<^verbatim>\<open>float64\<close>. A \<^verbatim>\<open>float64\<close> is a finite number \<open>m * 2^e\<close>, an
  infinity or NaN; the sign of a zero is not kept, since no operation of \<^verbatim>\<open>backoff\<close>
  tells the two zeros apart. \<open>dyadic m e\<close> is the number that \<open>Finite m e\<close> stands for.
\<close>

datatype float64 = Finite int int | PosInf | NegInf | NaN

definition dyadic :: "int \<Rightarrow> int \<Rightarrow> real" where
  "dyadic m e = real_of_int m * 2 powi e"

text \<open>
  \<open>round64 m e\<close> is the \<^verbatim>\<open>float64\<close> nearest to \<open>m * 2^e\<close>, as every operation rounds its
  exact result: to a significand of 53 bits, or to a multiple of \<open>2^-1074\<close> near zero,
  a tie to the even significand, and a result of \<open>2^1024\<close> or more to the infinity.
\<close>

definition round64 :: "int \<Rightarrow> int \<Rightarrow> float64" where
  "round64 m e =
     (if m = 0 then Finite 0 0
      else (let q = max (bitlen \<bar>m\<bar> + e - 53) (- 1074)
            in if q \<le> e
               then (if bitlen \<bar>m\<bar> + e > 1024 then (if 0 < m then PosInf else NegInf)
                     else Finite m e)
               else (let d = 2 ^ nat (q - e);
                         a = \<bar>m\<bar> div d;
                         r = \<bar>m\<bar> mod d;
                         a' = (if d < 2 * r \<or> (2 * r = d \<and> odd a) then a + 1 else a)
                     in if bitlen a' + q > 1024 then (if 0 < m then PosInf else NegInf)
                        else Finite (sgn m * a') q)))"

text \<open>
  The conversion \<^verbatim>\<open>float64(n)\<close> of an integer, the product and the difference.
\<close>

definition float64_of_int :: "int \<Rightarrow> float64" where
  "float64_of_int n = round64 n 0"

fun fmul :: "float64 \<Rightarrow> float64 \<Rightarrow> float64" where
  "fmul (Finite a e) (Finite b f) = round64 (a * b) (e + f)"
| "fmul (Finite a e) PosInf = (if a = 0 then NaN else if 0 < a then PosInf else NegInf)"
| "fmul (Finite a e) NegInf = (if a = 0 then NaN else if 0 < a then NegInf else PosInf)"
| "fmul PosInf (Finite b f) = (if b = 0 then NaN else if 0 < b then PosInf else NegInf)"
| "fmul NegInf (Finite b f) = (if b = 0 then NaN else if 0 < b then NegInf else PosInf)"
| "fmul PosInf PosInf = PosInf"
| "fmul PosInf NegInf = NegInf"
| "fmul NegInf PosInf = NegInf"
| "fmul NegInf NegInf = PosInf"
| "fmul NaN y = NaN"
| "fmul x NaN = NaN"

fun fsub :: "float64 \<Rightarrow> float64 \<Rightarrow> float64" where
  "fsub (Finite a e) (Finite b f) =
     (let g = min e f in round64 (a * 2 ^ nat (e - g) - b * 2 ^ nat (f - g)) g)"
| "fsub (Finite a e) PosInf = NegInf"
| "fsub (Finite a e) NegInf = PosInf"
| "fsub PosInf (Finite b f) = PosInf"
| "fsub NegInf (Finite b f) = NegInf"
| "fsub PosInf PosInf = NaN"
| "fsub PosInf NegInf = PosInf"
| "fsub NegInf PosInf = NegInf"
| "fsub NegInf NegInf = NaN"
| "fsub NaN y = NaN"
| "fsub x NaN = NaN"

text \<open>
  \<^verbatim>\<open>math.Pow(2, float64(n))\<close> for a positive \<open>n\<close>: the power of two, which is exact, and
  the infinity from \<open>2^1024\<close> on.
\<close>

definition Pow2 :: "int \<Rightarrow> float64" where
  "Pow2 n = (if 1023 < n then PosInf else Finite 1 n)"

text \<open>
  The conversion of a \<^verbatim>\<open>float64\<close> to \<^verbatim>\<open>time.Duration\<close> truncates toward zero. For a value
  that no \<^verbatim>\<open>int64\<close> holds, an infinity or NaN the result depends on the implementation,
  so it is a parameter of the model. On amd64 the conversion instruction yields the bit
  pattern \<^verbatim>\<open>0x8000000000000000\<close>, the least \<^verbatim>\<open>int64\<close>; on arm64 the result saturates,
  and NaN gives zero.
\<close>

record platform =
  F2I_out_of_range :: "float64 \<Rightarrow> int"

definition amd64 :: platform where
  "amd64 = \<lparr>F2I_out_of_range = (\<lambda>x. - (2 ^ 63))\<rparr>"

definition arm64 :: platform where
  "arm64 = \<lparr>F2I_out_of_range =
              (\<lambda>x. case x of
                      Finite m e \<Rightarrow> if 0 < m then 2 ^ 63 - 1 else - (2 ^ 63)
                    | PosInf \<Rightarrow> 2 ^ 63 - 1
                    | NegInf \<Rightarrow> - (2 ^ 63)
                    | NaN \<Rightarrow> 0)\<rparr>"

definition Duration_of_float64 :: "platform \<Rightarrow> float64 \<Rightarrow> int" where
  "Duration_of_float64 P x =
     (case x of
        Finite m e \<Rightarrow>
          (let n = (if 0 \<le> e then m * 2 ^ nat e else sgn m * (\<bar>m\<bar> div 2 ^ nat (- e)))
           in if - (2 ^ 63) \<le> n \<and> n < 2 ^ 63 then n else F2I_out_of_range P x)
      | _ \<Rightarrow> F2I_out_of_range P x)"

text \<open>
  \<open>rnd\<close> is the value that \<^verbatim>\<open>rand.Float64()\<close> returns, a \<^verbatim>\<open>float64\<close> in \<open>[0, 1)\<close>. The
  constants \<^verbatim>\<open>0.25\<close>, \<^verbatim>\<open>2\<close> and \<^verbatim>\<open>1\<close> are \<open>Finite 1 (- 2)\<close>, \<open>Finite 2 0\<close> and \<open>Finite 1 0\<close>.
  The sum \<^verbatim>\<open>interval += jitter\<close> is a 64-bit addition. The product \<^verbatim>\<open>rand.Float64()*2\<close>
  is exact, so a compiler that fuses it with the subtraction computes the same value.
\<close>

definition backoff :: "platform \<Rightarrow> float64 \<Rightarrow> int \<Rightarrow> int \<Rightarrow> int \<Rightarrow> int" where
  "backoff P rnd baseInterval maxInterval consecutiveFailures =
     (if consecutiveFailures \<le> 0 then baseInterval
      else (let multiplier = Pow2 consecutiveFailures;
                interval0 = Duration_of_float64 P (fmul (float64_of_int baseInterval) multiplier);
                interval1 = (if interval0 > maxInterval then maxInterval else interval0);
                jitter = Duration_of_float64 P
                           (fmul (fmul (float64_of_int interval1) (Finite 1 (- 2)))
                                 (fsub (fmul rnd (Finite 2 0)) (Finite 1 0)));
                interval2 = int64 (interval1 + jitter)
            in if interval2 < baseInterval then baseInterval else interval2))"

definition maxHeartbeatInterval :: int where
  "maxHeartbeatInterval = 5 * Minute"

definition registrationRetryBase :: int where
  "registrationRetryBase = 5 * Second"

definition registrationRetryMax :: int where
  "registrationRetryMax = 2 * Minute"

section \<open>The mock control plane of the tests (client\_test.go)\<close>

text \<open>
  \<^verbatim>\<open>mockHandler\<close> rejects a second registration under the same name with
  \<^verbatim>\<open>CodeAlreadyExists\<close>. It does not implement \<^verbatim>\<open>ReportEvent\<close>, so the embedded
  unimplemented handler answers that call.
\<close>

record mockHandler =
  agents :: "(string \<times> Agent) list"
  nextID :: nat

definition newMockHandler :: mockHandler where
  "newMockHandler = \<lparr>agents = [], nextID = 0\<rparr>"

text \<open>The decimal digits of a number: the \<^verbatim>\<open>%d\<close> verb.\<close>

function itoa :: "nat \<Rightarrow> string" where
  "itoa n = (if n < 10 then [char_of (48 + n)] else itoa (n div 10) @ [char_of (48 + n mod 10)])"
  by pat_completeness auto
termination
  by (relation "measure (\<lambda>n. n)") auto

declare itoa.simps [simp del]

definition mock_RegisterAgent ::
  "RegisterAgentRequest \<Rightarrow> mockHandler \<Rightarrow> (error + RegisterAgentResponse) \<times> mockHandler" where
  "mock_RegisterAgent msg h =
     (if find (\<lambda>a. ag_Name a = rr_Name msg) (map snd (agents h)) \<noteq> None
      then (Inl (Connect CodeAlreadyExists []), h)
      else (let n = nextID h + 1;
                agent = \<lparr>ag_Id = ''agent-'' @ itoa n, ag_Name = rr_Name msg,
                         ag_Status = ''AGENT_STATUS_ACTIVE'',
                         ag_Capabilities = rr_Capabilities msg,
                         ag_Metadata = rr_Metadata msg\<rparr>
            in (Inr \<lparr>GetAgent = Some agent, GetToken = ''test-token''\<rparr>,
                h\<lparr>agents := AList.update (ag_Id agent) agent (agents h), nextID := n\<rparr>)))"

definition mock_ListAgents :: "int \<Rightarrow> mockHandler \<Rightarrow> (error + Agent list) \<times> mockHandler" where
  "mock_ListAgents limit h = (Inr (map snd (agents h)), h)"

definition mock_ReportEvent :: "string \<Rightarrow> string \<Rightarrow> mockHandler \<Rightarrow> error option \<times> mockHandler" where
  "mock_ReportEvent agentId eventType h = (Some (Connect CodeUnimplemented []), h)"

definition mockRegistry :: "mockHandler AgentRegistryClient" where
  "mockRegistry =
     \<lparr>RegisterAgent = mock_RegisterAgent, ListAgents = mock_ListAgents,
      ReportEvent = mock_ReportEvent\<rparr>"

section \<open>Sample environments\<close>

text \<open>
  A fragment of the standard library for the examples: \<open>TrimSpace\<close> removes ASCII white
  space, and the decoders know one credential blob, the base64 text of a JSON object
  with the fields \<^verbatim>\<open>api_url\<close>, \<^verbatim>\<open>auth_method\<close>, \<^verbatim>\<open>role_id\<close> and \<^verbatim>\<open>secret_id\<close>.
\<close>

definition isSpace :: "char \<Rightarrow> bool" where
  "isSpace c = (c \<in> set ([CHR '' '', CHR 0x09, CHR 0x0A, CHR 0x0B, CHR 0x0C, CHR 0x0D]))"

definition asciiTrimSpace :: "string \<Rightarrow> string" where
  "asciiTrimSpace s = rev (dropWhile isSpace (rev (dropWhile isSpace s)))"

definition sample_blob :: string where
  "sample_blob = ''eyJhcGlfdXJsIjoiaHR0cDovL2EiLCJhdXRoX21ldGhvZCI6ImFwcHJvbGUiLCJyb2xlX2lkIjoiciIsInNlY3JldF9pZCI6InMifQ==''"

definition sample_json :: string where
  "sample_json =
     ''{'' @ dq @ ''api_url'' @ dq @ '':'' @ dq @ ''http://a'' @ dq @ '','' @
     dq @ ''auth_method'' @ dq @ '':'' @ dq @ ''approle'' @ dq @ '','' @
     dq @ ''role_id'' @ dq @ '':'' @ dq @ ''r'' @ dq @ '','' @
     dq @ ''secret_id'' @ dq @ '':'' @ dq @ ''s'' @ dq @ ''}''"

definition sample_creds :: agentCredentials where
  "sample_creds =
     \<lparr>APIURL = ''http://a'', VaultAddr = [], AuthMethod = ''approle'', RoleID = ''r'',
      SecretID = ''s'', KubeAuthRole = [], IAMAuthRole = [], OIDCRoleName = []\<rparr>"

definition sample_lib :: golib where
  "sample_lib =
     \<lparr>TrimSpace = asciiTrimSpace,
      DecodeString = (\<lambda>s. if s = sample_blob then Some sample_json else None),
      Unmarshal = (\<lambda>s. if s = sample_json then Some sample_creds else None),
      ReadFile = (\<lambda>path. Inl (Msg ''no such file or directory'')),
      Quote = (\<lambda>s. dq @ s @ dq),
      MarshalMap = (\<lambda>m. concat (map (\<lambda>(k, v). k @ ''='' @ v @ '';'') m))\<rparr>"

definition no_env :: "string \<Rightarrow> string" where
  "no_env name = []"

text \<open>
  A client made from the sample blob, the options of a registration, and a Cedar
  library whose authorizer denies every request.
\<close>

definition sample_opts :: StartOptions where
  "sample_opts =
     \<lparr>so_Name = ''a1'', so_Description = [], so_ParentID = [], so_Capabilities = [],
      so_Metadata = []\<rparr>"

definition sample_client :: "nat Client" where
  "sample_client =
     \<lparr>config = defaultConfig\<lparr>credentials := sample_blob\<rparr>,
      httpClient = TokenExchangeTransport
                     \<lparr>te_APIURL = ''http://a'', te_RoleID = ''r'', te_SecretID = ''s''\<rparr>,
      agentID = [], tenantID = [], cancel = None, policyEngine = NewEngine,
      policySyncer = False, agentCtx = emptyAgentContext, pendingAuthEvents = [],
      trace = []\<rparr>"

definition deny_all :: "nat cedar" where
  "deny_all =
     \<lparr>NewPolicySetFromBytes = (\<lambda>filename content. Inl (Msg ''parse error'')),
      Authorize = (\<lambda>ps entities req. (Deny, \<lparr>Reasons = [], Errors = []\<rparr>))\<rparr>"

text \<open>
  The world after a successful \<^verbatim>\<open>Start\<close> of the sample client, with its policy syncer
  running, against the new mock backend.
\<close>

definition started_world :: "nat Client \<times> mockHandler" where
  "started_world =
     (sample_client\<lparr>agentID := ''agent-1'', cancel := Some (HeartbeatLoop ''agent-1''),
        policySyncer := True,
        trace := [Call_RegisterAgent \<lparr>rr_Name = ''a1'', rr_Capabilities = [], rr_Metadata = [],
                                       rr_ParentId = None\<rparr>,
                  Call_ReportEvent ''agent-1'' ''agent.started'',
                  Go (HeartbeatLoop ''agent-1'')]\<rparr>,
      \<lparr>agents = [(''agent-1'', \<lparr>ag_Id = ''agent-1'', ag_Name = ''a1'',
                                ag_Status = ''AGENT_STATUS_ACTIVE'', ag_Capabilities = [],
                                ag_Metadata = []\<rparr>)],
       nextID = 1\<rparr>)"

text \<open>
  A Cedar parser for the examples: the content \<^verbatim>\<open>bad\<close> does not parse, any other
  content holds two policies.
\<close>

definition sample_cedar :: "nat cedar" where
  "sample_cedar =
     \<lparr>NewPolicySetFromBytes =
        (\<lambda>filename content.
           if content = ''bad'' then Inl (Msg ''parse error'')
           else Inr [(''policy0'', 0), (''policy1'', 1)]),
      Authorize = (\<lambda>ps entities req. (Deny, \<lparr>Reasons = [], Errors = []\<rparr>))\<rparr>"

definition loaded_engine :: "nat Engine" where
  "loaded_engine = \<lparr>policySet = [(''old.cedar:policy0'', 7)], policyVersion = ''v1''\<rparr>"

text \<open>
  A network for the examples. The policy endpoint answers 304 to a request that carries
  the entity tag \<^verbatim>\<open>W1\<close> and 200 with that tag otherwise; the token endpoints answer 200,
  and the decoders read an access token that lives 3600 seconds, a Vault token that lives
  7200 seconds and an identity token that lives 600 seconds.
\<close>

definition sample_bundle :: BundleResponse where
  "sample_bundle = \<lparr>Version = ''v1'', Hash = ''h1'', Policies = [(''a.cedar'', ''permit'')]\<rparr>"

definition sample_http :: httpenv where
  "sample_http =
     \<lparr>NewRequestErr = (\<lambda>method url. None),
      RoundTrip = (\<lambda>req. Inr \<lparr>StatusCode = 200, Header = [], Body = ''ok'', BodyErr = None\<rparr>),
      Do = (\<lambda>req. if Header_Get (hr_Header req) ''If-None-Match'' = ''W1''
                  then Inr \<lparr>StatusCode = 304, Header = [], Body = [], BodyErr = None\<rparr>
                  else Inr \<lparr>StatusCode = 200, Header = [(''ETag'', ''W1'')],
                            Body = ''bundle'', BodyErr = None\<rparr>),
      UnmarshalBundle = (\<lambda>body. if body = ''bundle'' then Inr sample_bundle
                               else Inl (Msg ''invalid character'')),
      DecodeTokenResult = (\<lambda>resp. Inr \<lparr>AccessToken = ''jwt-1'', TokenType = ''Bearer'',
                                        ExpiresIn = 3600\<rparr>),
      DecodeAuthResponse = (\<lambda>resp. Inr (''vault-1'', 7200)),
      DecodeOIDCResponse = (\<lambda>resp. Inr (''oidc-1'', 600))\<rparr>"

definition sample_fetcher :: Fetcher where
  "sample_fetcher = NewFetcher ''http://a'' ''tenant-1''"


definition sample_vault :: va_Transport where
  "sample_vault =
     \<lparr>va_config = vault_NewTransport
                     (emptyVaultConfig\<lparr>va_VaultAddr := ''http://v'', va_OIDCRole := ''dome-agent'',
                                        va_AuthMethod := ''approle'', va_AppRoleID := ''r'',
                                        va_AppSecretID := ''s''\<rparr>),
      OidcToken = [], OidcExpiry = 0, vaultToken = [], vaultExp = 0\<rparr>"

definition sample_clock :: vault_clock where
  "sample_clock = \<lparr>nowCheck = 1000, nowEnsure = 1001, nowLogin = 1002, nowOIDC = 1003\<rparr>"


text \<open>
  More networks and backends for the examples: a policy endpoint that answers every
  request with one given response, a network that refuses every connection, a Vault
  that accepts the login and denies the identity token, and a control plane like the
  mock whose listing is unavailable.
\<close>

definition answering :: "http_Response \<Rightarrow> httpenv" where
  "answering resp = sample_http\<lparr>Do := (\<lambda>req. Inr resp)\<rparr>"



definition unlisted_registry :: "mockHandler AgentRegistryClient" where
  "unlisted_registry =
     mockRegistry\<lparr>ListAgents := (\<lambda>limit h. (Inl (Connect CodeUnavailable []), h))\<rparr>"




text \<open>
  The sample client built with \<^verbatim>\<open>WithoutHeartbeat\<close>, the sample client with graceful
  degradation switched on, and a control plane that cannot be reached.
\<close>

definition quiet_client :: "nat Client" where
  "quiet_client = sample_client\<lparr>config := (config sample_client)\<lparr>disableHeartbeat := True\<rparr>\<rparr>"

definition degrading_client :: "nat Client" where
  "degrading_client =
     sample_client\<lparr>config := (config sample_client)\<lparr>gracefulDegradation := True\<rparr>\<rparr>"

definition unreachable_registry :: "mockHandler AgentRegistryClient" where
  "unreachable_registry =
     \<lparr>RegisterAgent = (\<lambda>msg h. (Inl (Connect CodeUnavailable []), h)),
      ListAgents = (\<lambda>limit h. (Inl (Connect CodeUnavailable []), h)),
      ReportEvent = (\<lambda>agentId eventType h. (Some (Connect CodeUnavailable []), h))\<rparr>"

text \<open>
  A control plane like the mock that honours the limit of a listing, and the state of
  the mock after a hundred agents of other names have registered.
\<close>

definition paged_registry :: "mockHandler AgentRegistryClient" where
  "paged_registry =
     mockRegistry\<lparr>ListAgents := (\<lambda>limit h. (Inr (take (nat limit) (map snd (agents h))), h))\<rparr>"

definition crowd_agent :: "nat \<Rightarrow> Agent" where
  "crowd_agent n =
     \<lparr>ag_Id = ''agent-'' @ itoa n, ag_Name = ''n'' @ itoa n, ag_Status = ''AGENT_STATUS_ACTIVE'',
      ag_Capabilities = [], ag_Metadata = []\<rparr>"

definition crowded :: mockHandler where
  "crowded = \<lparr>agents = map (\<lambda>n. (ag_Id (crowd_agent n), crowd_agent n)) [1..<101], nextID = 100\<rparr>"

section \<open>Properties\<close>

subsection \<open>Credential decoding\<close>

lemma decodeToken_error_None: "snd (decodeToken L token) = None"
  by (simp add: decodeToken_def Let_def split: option.split)

lemma decodeToken_fst_None_iff: "fst (decodeToken L token) = None \<longleftrightarrow> opaque_token L token"
  by (auto simp: decodeToken_def opaque_token_def Let_def split: option.splits)

text \<open>
  For every input string \<^verbatim>\<open>decodeToken\<close> returns a nil error; the descriptor is nil
  exactly for a blob that is empty after trimming, is not valid base64, is not valid JSON
  after decoding, or is JSON with neither \<^verbatim>\<open>api_url\<close> nor \<^verbatim>\<open>vault_addr\<close>. So \<^verbatim>\<open>NewClient\<close>
  never returns its "decode credentials" error, whatever the options and the environment
  are.
\<close>

lemma decodeToken_never_errors:
  "snd (decodeToken L token) = None
   \<and> (fst (decodeToken L token) = None \<longleftrightarrow> opaque_token L token)
   \<and> (\<forall>err. (NewClient L getenv opts :: error + 'p Client)
          \<noteq> Inl (Wrap (errorf ''decode credentials: '') err))"
proof -
  have third: "(NewClient L getenv opts :: error + 'p Client)
          \<noteq> Inl (Wrap (errorf ''decode credentials: '') err)" for err
  proof -
    define credToken where "credToken =
      (if credentials (applyOptions L opts defaultConfig) = [] then getenv ''DOME_AGENT_TOKEN''
       else credentials (applyOptions L opts defaultConfig))"
    obtain creds where d: "decodeToken L credToken = (creds, None)"
      using decodeToken_error_None [of L credToken] by (cases "decodeToken L credToken") auto
    show ?thesis
      using d unfolding NewClient_def Let_def credToken_def [symmetric]
      by (auto simp: authRequiredMessage_def split: option.splits if_splits)
  qed
  show ?thesis
    using third decodeToken_error_None decodeToken_fst_None_iff by blast
qed

subsection \<open>Authentication resolution\<close>

lemma asciiTrimSpace_sample_blob: "asciiTrimSpace sample_blob = sample_blob"
  by (simp add: asciiTrimSpace_def sample_blob_def isSpace_def)

lemma decodeToken_sample_blob: "decodeToken sample_lib sample_blob = (Some sample_creds, None)"
  by (simp add: decodeToken_def sample_lib_def asciiTrimSpace_sample_blob Let_def)
     (simp add: sample_blob_def sample_creds_def)

text \<open>
  Claim C2 puts the explicit API key (source 2) before the environment variable
  \<^verbatim>\<open>DOME_AGENT_TOKEN\<close> (source 3), as the comment on \<^verbatim>\<open>NewClient\<close> does. The code tries the
  credential blob of either origin first: with \<^verbatim>\<open>WithAPIKey("k")\<close> and a structured blob
  in \<^verbatim>\<open>DOME_AGENT_TOKEN\<close>, the client gets the token-exchange transport of the blob and
  the key is not used.
\<close>

theorem NewClient_env_blob_outranks_WithAPIKey:
  "map_sum id httpClient
     (NewClient sample_lib (no_env(''DOME_AGENT_TOKEN'' := sample_blob)) [WithAPIKey ''k'']
        :: error + unit Client)
   = Inr (TokenExchangeTransport \<lparr>te_APIURL = ''http://a'', te_RoleID = ''r'', te_SecretID = ''s''\<rparr>)"
  by (simp add: NewClient_def defaultConfig_def Let_def decodeToken_sample_blob no_env_def)
     (simp add: sample_blob_def sample_creds_def)

text \<open>
  The rest of the order holds. Without any source the construction fails with the message
  that names the five sources; where the credential blob is absent or opaque, the key is
  the first non-empty one of \<^verbatim>\<open>WithAPIKey\<close>, \<^verbatim>\<open>DOME_API_KEY\<close> and \<^verbatim>\<open>DOME_TOKEN\<close>.
\<close>

lemma NewClient_sample:
  "NewClient sample_lib no_env [WithCredentials sample_blob] = Inr sample_client"
  by (simp add: NewClient_def defaultConfig_def Let_def decodeToken_sample_blob no_env_def
      sample_client_def)
     (simp add: sample_blob_def sample_creds_def)

lemma NewClient_all_absent:
  assumes "credentials (applyOptions L opts defaultConfig) = []"
    and "apiKey (applyOptions L opts defaultConfig) = []"
    and "getenv ''DOME_AGENT_TOKEN'' = []"
    and "getenv ''DOME_API_KEY'' = []"
    and "getenv ''DOME_TOKEN'' = []"
  shows "NewClient L getenv opts = Inl (Msg authRequiredMessage)"
  using assms by (simp add: NewClient_def Let_def)

lemma NewClient_key_chain:
  assumes "decodeToken L (if credentials (applyOptions L opts defaultConfig) = []
                          then getenv ''DOME_AGENT_TOKEN''
                          else credentials (applyOptions L opts defaultConfig)) = (None, None)"
  shows "map_sum id httpClient (NewClient L getenv opts :: error + 'p Client) =
           (let k1 = apiKey (applyOptions L opts defaultConfig);
                k2 = (if k1 = [] then getenv ''DOME_API_KEY'' else k1);
                k3 = (if k2 = [] then getenv ''DOME_TOKEN'' else k2)
            in if k3 = [] then Inl (Msg authRequiredMessage) else Inr (BearerTransport k3))"
  using assms by (simp add: NewClient_def Let_def)

lemma asciiTrimSpace_plain: "asciiTrimSpace ''dome_sk_abc123def456'' = ''dome_sk_abc123def456''"
  by (simp add: asciiTrimSpace_def isSpace_def)

lemma decodeToken_plain: "decodeToken sample_lib ''dome_sk_abc123def456'' = (None, None)"
  by (simp add: decodeToken_def sample_lib_def asciiTrimSpace_plain Let_def sample_blob_def)

text \<open>
  Claim C10. The decoder does what the claim says (\<open>decodeToken_never_errors\<close>): no input
  gives an error, and a blob that is not base64, not JSON, or JSON without \<^verbatim>\<open>api_url\<close> and
  \<^verbatim>\<open>vault_addr\<close> gives the nil descriptor, which the comments of \<^verbatim>\<open>decodeToken\<close> explain as
  "might be a plain API key", "the caller falls through to bearer token auth", "treat as
  plain token". The caller does not: \<^verbatim>\<open>NewClient\<close> uses the raw blob as bearer token only
  in the branch \<^verbatim>\<open>else if creds != nil\<close>, and with the nil descriptor it leaves the blob
  aside and goes on to the API key. With the plain key \<^verbatim>\<open>dome_sk_abc123def456\<close> given as
  the only credential the construction fails with "authentication required"; next to
  \<^verbatim>\<open>WithAPIKey("k")\<close> the bearer token is \<^verbatim>\<open>k\<close>, not the blob.
\<close>

theorem NewClient_drops_opaque_credentials:
  "decodeToken sample_lib ''dome_sk_abc123def456'' = (None, None)
   \<and> (NewClient sample_lib no_env [WithCredentials ''dome_sk_abc123def456'']
         :: error + nat Client) = Inl (Msg authRequiredMessage)
   \<and> map_sum id httpClient
        (NewClient sample_lib no_env [WithCredentials ''dome_sk_abc123def456'', WithAPIKey ''k'']
           :: error + nat Client) = Inr (BearerTransport ''k'')"
  by (simp add: NewClient_def defaultConfig_def Let_def decodeToken_plain no_env_def)

subsection \<open>Auth events before registration\<close>

lemma itoa_1: "itoa 1 = ''1''"
  by code_simp

lemma itoa_Suc0: "itoa (Suc 0) = ''1''"
  using itoa_1 by simp

lemma authCallback_queues:
  "agentID c = [] \<Longrightarrow>
     pendingAuthEvents (authCallback eventType c) = pendingAuthEvents c @ [eventType]
     \<and> trace (authCallback eventType c) = trace c"
  by (simp add: authCallback_def)

lemma setAgentID_keeps_queue:
  "pendingAuthEvents (setAgentID newID c) = pendingAuthEvents c
   \<and> trace (setAgentID newID c) = trace c"
  by (simp add: setAgentID_def)

text \<open>
  Claim C1 has two halves. The first holds: without an agent id the callback appends the
  event to the pending queue (\<open>authCallback_queues\<close>). The second does not:
  \<^verbatim>\<open>setAgentID\<close> only stores the id (\<open>setAgentID_keeps_queue\<close>), and no function of the
  client reads the queue. Here the transport reports \<^verbatim>\<open>agent.authenticated\<close> before the
  registration; after \<^verbatim>\<open>Start\<close> has set the id \<^verbatim>\<open>agent-1\<close>, and likewise after a
  successful attempt of the background registration, the event is still in the queue
  and the only event sent to the control plane is \<^verbatim>\<open>agent.started\<close>.
\<close>

theorem pending_auth_events_not_drained:
  "(case Start mockRegistry s sample_opts
           (authCallback ''agent.authenticated'' sample_client, newMockHandler) of
      None \<Rightarrow> False
    | Some (res, c, b) \<Rightarrow>
         map_sum id ID res = Inr ''agent-1''
       \<and> agentID c = ''agent-1''
       \<and> pendingAuthEvents c = [''agent.authenticated'']
       \<and> trace c = [Call_RegisterAgent \<lparr>rr_Name = ''a1'', rr_Capabilities = [], rr_Metadata = [],
                                         rr_ParentId = None\<rparr>,
                    Call_ReportEvent ''agent-1'' ''agent.started'',
                    Go (HeartbeatLoop ''agent-1'')])
   \<and> (case registrationAttempt mockRegistry sample_opts
           (authCallback ''agent.authenticated'' sample_client, newMockHandler) of
      (err, c, b) \<Rightarrow>
         err = None \<and> agentID c = ''agent-1''
       \<and> pendingAuthEvents c = [''agent.authenticated'']
       \<and> trace c = [Call_RegisterAgent \<lparr>rr_Name = ''a1'', rr_Capabilities = [], rr_Metadata = [],
                                         rr_ParentId = None\<rparr>])"
  by (simp add: Start_def registrationAttempt_def doRegister_def sample_opts_def authCallback_def
      sample_client_def mockRegistry_def mock_RegisterAgent_def newMockHandler_def
      agentFromProto_def reportEvent_def reportEventForAgent_def AgentID_def setAgentID_def
      startHeartbeat_def stopWorker_def mock_ReportEvent_def defaultConfig_def Let_def
      itoa_Suc0 itoa_1)

subsection \<open>Close\<close>

text \<open>
  What holds of \<^verbatim>\<open>Close\<close> in general. When it returns it returns nil, with the cancel
  handle and the syncer cleared, and a \<^verbatim>\<open>Close\<close> after that returns nil and leaves the world
  as it is. Without a cancel handle it only stops the syncer. With the handle of a worker
  that can be cancelled it does in this order: stop the syncer, send \<^verbatim>\<open>agent.stopped\<close>
  when the agent id is not empty, cancel, wait. It does not return exactly when it holds
  the handle of a worker that stands at a lock of \<^verbatim>\<open>c.mu\<close>.
\<close>

lemma Close_returns_nil: "Close R s w = Some r \<Longrightarrow> fst r = None"
  by (auto simp: Close_def Let_def split: prod.splits option.splits if_splits)

lemma Close_blocks_iff:
  "Close R s (c, b) = None \<longleftrightarrow> cancel c \<noteq> None \<and> s = AtLock"
  by (cases s) (auto simp: Close_def Let_def split: prod.splits option.splits)

lemma Close_clears:
  "Close R s w = Some (e, c', b') \<Longrightarrow> cancel c' = None \<and> \<not> policySyncer c'"
  by (auto simp: Close_def Let_def reportEventForAgent_def
      split: prod.splits option.splits if_splits)

lemma Close_idle:
  "cancel c = None \<Longrightarrow> \<not> policySyncer c \<Longrightarrow> Close R s (c, b) = Some (None, c, b)"
  by (simp add: Close_def)

lemma Close_twice:
  assumes "Close R s w = Some (e, w')"
  shows "Close R s' w' = Some (None, w')"
proof -
  obtain c' b' where w': "w' = (c', b')"
    by (cases w')
  from Close_clears [of R s w e c' b'] assms w'
  have "cancel c' = None \<and> \<not> policySyncer c'"
    by simp
  then show ?thesis
    by (simp add: w' Close_idle)
qed

lemma Close_without_worker:
  assumes "cancel c = None"
  shows "Close R s (c, b) =
           Some (None,
                 if policySyncer c
                 then c\<lparr>trace := trace c @ [SyncerStop], policySyncer := False\<rparr> else c,
                 b)"
  using assms by (simp add: Close_def)

lemma Close_with_worker:
  assumes "cancel c = Some wk"
  shows "\<exists>c' b'. Close R Cancellable (c, b) = Some (None, c', b')
           \<and> trace c' =
               trace c @ (if policySyncer c then [SyncerStop] else [])
                   @ (if agentID c \<noteq> [] then [Call_ReportEvent (agentID c) ''agent.stopped'']
                      else [])
                   @ [Cancel, AwaitStopped]
           \<and> cancel c' = None \<and> \<not> policySyncer c'"
  using assms by (simp add: Close_def Let_def reportEventForAgent_def)

lemma NewClient_quiet:
  "NewClient sample_lib no_env [WithCredentials sample_blob, WithoutHeartbeat] = Inr quiet_client"
  by (simp add: NewClient_def defaultConfig_def Let_def decodeToken_sample_blob no_env_def
      sample_client_def quiet_client_def)
     (simp add: sample_blob_def sample_creds_def)

text \<open>
  Claim C6. The claim has \<^verbatim>\<open>Close\<close> send \<^verbatim>\<open>agent.stopped\<close> whenever an agent id exists. The
  code sends the event inside the block \<^verbatim>\<open>if c.cancel != nil\<close>, so only when a worker was
  launched, while \<^verbatim>\<open>Start\<close> sends \<^verbatim>\<open>agent.started\<close> with or without a worker. For the
  client built with \<^verbatim>\<open>WithoutHeartbeat\<close>, \<^verbatim>\<open>Start\<close> sets the agent id \<^verbatim>\<open>agent-1\<close>, reports
  \<^verbatim>\<open>agent.started\<close> and launches no worker; \<^verbatim>\<open>Close\<close> then returns nil and leaves the
  world as it is: no \<^verbatim>\<open>agent.stopped\<close> is sent. This holds wherever the scheduler has the
  workers.
\<close>

theorem Close_without_heartbeat_omits_agent_stopped:
  "NewClient sample_lib no_env [WithCredentials sample_blob, WithoutHeartbeat] = Inr quiet_client
   \<and> (case Start mockRegistry s sample_opts (quiet_client, newMockHandler) of
        None \<Rightarrow> False
      | Some (res, c, b) \<Rightarrow>
          map_sum id ID res = Inr ''agent-1''
        \<and> agentID c = ''agent-1''
        \<and> cancel c = None
        \<and> trace c = [Call_RegisterAgent \<lparr>rr_Name = ''a1'', rr_Capabilities = [],
                                          rr_Metadata = [], rr_ParentId = None\<rparr>,
                     Call_ReportEvent ''agent-1'' ''agent.started'']
        \<and> Close mockRegistry s (c, b) = Some (None, c, b))"
  by (simp add: NewClient_quiet)
     (simp add: Start_def doRegister_def sample_opts_def quiet_client_def
      sample_client_def mockRegistry_def mock_RegisterAgent_def newMockHandler_def
      agentFromProto_def reportEvent_def reportEventForAgent_def AgentID_def setAgentID_def
      mock_ReportEvent_def defaultConfig_def Let_def itoa_Suc0 itoa_1 Close_def)

text \<open>
  With the heartbeat running the event is sent: \<^verbatim>\<open>Close\<close> of the world that \<^verbatim>\<open>Start\<close> leaves
  for the sample client stops the syncer, sends \<^verbatim>\<open>agent.stopped\<close>, cancels and waits.
\<close>

lemma Start_sample:
  "Start mockRegistry s sample_opts (sample_client\<lparr>policySyncer := True\<rparr>, newMockHandler)
     = Some (Inr \<lparr>ID = ''agent-1'', Name = ''a1'', Status = ''AGENT_STATUS_ACTIVE'',
                  Capabilities = [], Metadata = [], Token = ''test-token''\<rparr>, started_world)"
  by (simp add: started_world_def Start_def doRegister_def sample_opts_def
      sample_client_def mockRegistry_def mock_RegisterAgent_def newMockHandler_def
      agentFromProto_def reportEvent_def reportEventForAgent_def AgentID_def setAgentID_def
      startHeartbeat_def stopWorker_def mock_ReportEvent_def defaultConfig_def Let_def
      itoa_Suc0 itoa_1)

lemma Close_started_world:
  "Close mockRegistry Cancellable started_world =
     Some (None,
           (fst started_world)
             \<lparr>trace := trace (fst started_world)
                 @ [SyncerStop, Call_ReportEvent ''agent-1'' ''agent.stopped'', Cancel,
                    AwaitStopped],
              cancel := None, policySyncer := False\<rparr>,
           snd started_world)"
  by (simp add: started_world_def Close_def Let_def reportEventForAgent_def
      mockRegistry_def mock_ReportEvent_def sample_client_def)

text \<open>
  \<^verbatim>\<open>Close\<close> may wait for ever. With graceful degradation and an unreachable control plane
  \<^verbatim>\<open>Start\<close> launches the background registration. Once the control plane answers, an
  attempt of the worker succeeds and the worker calls \<^verbatim>\<open>c.setAgentID\<close>; a \<^verbatim>\<open>Close\<close> that
  has taken the mutex by then does not return.
\<close>

lemma Close_blocks_at_lock:
  "Start unreachable_registry Cancellable sample_opts (degrading_client, newMockHandler)
     = Some (Inr (emptyAgentInfo\<lparr>Name := ''a1''\<rparr>),
             degrading_client
               \<lparr>trace := [Call_RegisterAgent \<lparr>rr_Name = ''a1'', rr_Capabilities = [],
                                               rr_Metadata = [], rr_ParentId = None\<rparr>,
                          Go (BackgroundRegistration sample_opts)],
                cancel := Some (BackgroundRegistration sample_opts)\<rparr>,
             newMockHandler)
   \<and> Close mockRegistry AtLock
        (degrading_client
           \<lparr>trace := [Call_RegisterAgent \<lparr>rr_Name = ''a1'', rr_Capabilities = [],
                                           rr_Metadata = [], rr_ParentId = None\<rparr>,
                      Go (BackgroundRegistration sample_opts)],
            cancel := Some (BackgroundRegistration sample_opts)\<rparr>,
         newMockHandler) = None"
  by (simp add: Start_def doRegister_def sample_opts_def degrading_client_def
      sample_client_def unreachable_registry_def startBackgroundRegistration_def stopWorker_def
      defaultConfig_def Let_def Close_def)

subsection \<open>Check without policies\<close>

lemma NewEngine_no_policies: "\<not> HasPolicies NewEngine"
  by (simp add: HasPolicies_def PolicyCount_def NewEngine_def)

text \<open>
  Claim C9. While policy is disabled or the engine holds no policy, \<^verbatim>\<open>Check\<close> allows with
  the reason "no policy bundle loaded" and an empty policy version, whatever the Cedar
  library \<open>C\<close> is: the authorizer is not asked. The engine of a new client holds no policy
  (\<open>NewEngine_no_policies\<close>).
\<close>

theorem Check_fail_open:
  assumes "disablePolicy (config c) \<or> \<not> HasPolicies (policyEngine c)"
  shows "Check C c req =
           (\<lparr>Allowed = True, Reason = ''no policy bundle loaded'', PolicyVersion = []\<rparr>, None)"
  using assms by (auto simp: Check_def)

theorem Check_fail_open_witness:
  "\<not> HasPolicies (policyEngine sample_client)
   \<and> Check deny_all sample_client
        \<lparr>cr_Action = ''mcp:call'', cr_Resource = ''t/secret'', cr_ResourceType = [],
         cr_Context = []\<rparr>
       = (\<lparr>Allowed = True, Reason = ''no policy bundle loaded'', PolicyVersion = []\<rparr>, None)
   \<and> HasPolicies \<lparr>policySet = [(''f:policy0'', 0 :: nat)], policyVersion = ''v1''\<rparr>
   \<and> Check deny_all
        (sample_client\<lparr>config := (config sample_client)\<lparr>disablePolicy := True\<rparr>,
                        policyEngine := \<lparr>policySet = [(''f:policy0'', 0)],
                                          policyVersion = ''v1''\<rparr>\<rparr>)
        \<lparr>cr_Action = ''mcp:call'', cr_Resource = ''t/secret'', cr_ResourceType = [],
         cr_Context = []\<rparr>
       = (\<lparr>Allowed = True, Reason = ''no policy bundle loaded'', PolicyVersion = []\<rparr>, None)"
proof -
  let ?off = "sample_client\<lparr>config := (config sample_client)\<lparr>disablePolicy := True\<rparr>,
                            policyEngine := \<lparr>policySet = [(''f:policy0'', 0)],
                                              policyVersion = ''v1''\<rparr>\<rparr>"
  have h: "\<not> HasPolicies (policyEngine sample_client)"
    by (simp add: sample_client_def NewEngine_no_policies)
  then have "disablePolicy (config sample_client) \<or> \<not> HasPolicies (policyEngine sample_client)"
    by simp
  note first = Check_fail_open [OF this]
  have loaded: "HasPolicies \<lparr>policySet = [(''f:policy0'', 0 :: nat)], policyVersion = ''v1''\<rparr>"
    by (simp add: HasPolicies_def PolicyCount_def)
  have "disablePolicy (config ?off) \<or> \<not> HasPolicies (policyEngine ?off)"
    by simp
  note second = Check_fail_open [OF this]
  from first second h loaded show ?thesis
    by simp
qed

text \<open>With a policy loaded and policy enabled, the decision is the authorizer's.\<close>

lemma Check_asks_engine_when_loaded:
  "Check deny_all (sample_client\<lparr>policyEngine := \<lparr>policySet = [(''f:policy0'', 0)],
                                                  policyVersion = ''v1''\<rparr>\<rparr>)
        \<lparr>cr_Action = ''mcp:call'', cr_Resource = ''t/secret'', cr_ResourceType = [],
         cr_Context = []\<rparr>
     = (\<lparr>Allowed = False, Reason = ''denied: no matching permit policy'',
         PolicyVersion = ''v1''\<rparr>, None)"
  by (simp add: Check_def sample_client_def defaultConfig_def HasPolicies_def PolicyCount_def
      Evaluate_def deny_all_def extractReason_def Let_def)

subsection \<open>Loading a bundle\<close>

lemma addParsed_map_of:
  "map_of (addParsed filename parsed ps) =
     map_of ps ++ map_of (rev (map (\<lambda>(name, p). (filename @ '':'' @ name, p)) parsed))"
proof (induction parsed arbitrary: ps)
  case Nil
  then show ?case by simp
next
  case (Cons x parsed)
  obtain name p where x: "x = (name, p)" by (cases x)
  let ?k = "filename @ '':'' @ name"
  let ?rk = "\<lambda>(name, p). (filename @ '':'' @ name, p)"
  let ?M = "map_of (rev (map ?rk parsed))"
  have lhs: "map_of (addParsed filename (x # parsed) ps) = (map_of ps)(?k \<mapsto> p) ++ ?M"
    by (simp only: x addParsed.simps Cons.IH update_conv')
  have rhs: "map_of (rev (map ?rk (x # parsed))) = [?k \<mapsto> p] ++ ?M"
    by (simp add: x)
  have "(map_of ps)(?k \<mapsto> p) ++ ?M = map_of ps ++ ([?k \<mapsto> p] ++ ?M)"
    by (metis map_add_assoc map_add_empty map_add_upd)
  then show ?case
    by (simp only: lhs rhs)
qed

lemma addParsed_keys:
  "fst ` set (addParsed filename parsed ps) =
     fst ` set ps \<union> fst ` set (map (\<lambda>(name, p). (filename @ '':'' @ name, p)) parsed)"
proof (induction parsed arbitrary: ps)
  case Nil
  then show ?case by simp
next
  case (Cons x parsed)
  obtain name p where x: "x = (name, p)" by (cases x)
  show ?case
    by (simp add: x Cons.IH dom_update)
qed

lemma addParsed_distinct:
  "distinct (map fst ps) \<Longrightarrow> distinct (map fst (addParsed filename parsed ps))"
proof (induction parsed arbitrary: ps)
  case Nil
  then show ?case by simp
next
  case (Cons x parsed)
  obtain name p where x: "x = (name, p)" by (cases x)
  show ?case
    using Cons.prems by (simp add: x Cons.IH distinct_update)
qed

lemma loadFiles_fails:
  "\<exists>(f, c) \<in> set policies. isl (NewPolicySetFromBytes C f c) \<Longrightarrow>
     \<exists>err. loadFiles C policies ps = Inl err"
proof (induction policies arbitrary: ps)
  case Nil
  then show ?case by simp
next
  case (Cons x policies)
  obtain f c where x: "x = (f, c)" by (cases x)
  show ?case
  proof (cases "NewPolicySetFromBytes C f c")
    case (Inl err)
    then show ?thesis by (simp add: x)
  next
    case (Inr parsed)
    then have "\<exists>(f, c) \<in> set policies. isl (NewPolicySetFromBytes C f c)"
      using Cons.prems x by auto
    from Cons.IH [OF this] show ?thesis
      by (simp add: x Inr)
  qed
qed

lemma loadFiles_succeeds:
  "\<forall>(f, c) \<in> set policies. \<not> isl (NewPolicySetFromBytes C f c) \<Longrightarrow>
     \<exists>ps'. loadFiles C policies ps = Inr ps'
        \<and> map_of ps' = map_of ps ++ map_of (rev (rekeyed C policies))
        \<and> fst ` set ps' = fst ` set ps \<union> fst ` set (rekeyed C policies)
        \<and> (distinct (map fst ps) \<longrightarrow> distinct (map fst ps'))"
proof (induction policies arbitrary: ps)
  case Nil
  then show ?case by (simp add: rekeyed_def)
next
  case (Cons x policies)
  obtain f c where x: "x = (f, c)" by (cases x)
  from Cons.prems x obtain parsed where parsed: "NewPolicySetFromBytes C f c = Inr parsed"
    by (cases "NewPolicySetFromBytes C f c") auto
  have rest: "\<forall>(f, c) \<in> set policies. \<not> isl (NewPolicySetFromBytes C f c)"
    using Cons.prems by simp
  from Cons.IH [OF rest, of "addParsed f parsed ps"]
  obtain ps' where ps': "loadFiles C policies (addParsed f parsed ps) = Inr ps'"
    "map_of ps' = map_of (addParsed f parsed ps) ++ map_of (rev (rekeyed C policies))"
    "fst ` set ps' = fst ` set (addParsed f parsed ps) \<union> fst ` set (rekeyed C policies)"
    "distinct (map fst (addParsed f parsed ps)) \<longrightarrow> distinct (map fst ps')"
    by blast
  have rk: "rekeyed C ((f, c) # policies) =
              map (\<lambda>(name, p). (f @ '':'' @ name, p)) parsed @ rekeyed C policies"
    by (simp add: rekeyed_def parsed)
  show ?case
    using ps' addParsed_distinct [of ps f parsed]
    by (simp add: x parsed rk addParsed_map_of addParsed_keys Un_assoc image_Un)
qed

lemma map_of_rev_distinct:
  "distinct (map fst xs) \<Longrightarrow> (k, v) \<in> set xs \<Longrightarrow> map_of (rev xs) k = Some v"
  by (simp add: rev_map [symmetric])

text \<open>
  Claim C4. If a file of the bundle does not parse, \<^verbatim>\<open>LoadBundle\<close> returns an error and
  the engine is as before: the policy set and the version are kept. If every file parses,
  it returns nil, the version is the new one, and the policy set is a fresh one: its keys
  are exactly the names \<open>filename:original-id\<close> of the parsed policies, nothing of the
  old set; where these names are distinct, each name carries its policy. Both fields
  change in the one step that the writer lock guards. The files are given in the order in
  which the loop visits the map.
\<close>

theorem LoadBundle_all_or_nothing:
  "((\<exists>(f, c) \<in> set policies. isl (NewPolicySetFromBytes C f c)) \<longrightarrow>
      (\<exists>err. LoadBundle C policies version e = (Some err, e)))
   \<and> ((\<forall>(f, c) \<in> set policies. \<not> isl (NewPolicySetFromBytes C f c)) \<longrightarrow>
        fst (LoadBundle C policies version e) = None
      \<and> policyVersion (snd (LoadBundle C policies version e)) = version
      \<and> fst ` set (policySet (snd (LoadBundle C policies version e)))
            = fst ` set (rekeyed C policies)
      \<and> distinct (map fst (policySet (snd (LoadBundle C policies version e))))
      \<and> (distinct (map fst (rekeyed C policies)) \<longrightarrow>
            (\<forall>(k, p) \<in> set (rekeyed C policies).
                map_of (policySet (snd (LoadBundle C policies version e))) k = Some p)))"
proof (intro conjI impI)
  assume "\<exists>(f, c) \<in> set policies. isl (NewPolicySetFromBytes C f c)"
  from loadFiles_fails [OF this, of "[]"]
  show "\<exists>err. LoadBundle C policies version e = (Some err, e)"
    by (auto simp: LoadBundle_def)
next
  assume ok: "\<forall>(f, c) \<in> set policies. \<not> isl (NewPolicySetFromBytes C f c)"
  from loadFiles_succeeds [OF ok, of "[]"]
  obtain ps' where ps': "loadFiles C policies [] = Inr ps'"
    "map_of ps' = map_of (rev (rekeyed C policies))"
    "fst ` set ps' = fst ` set (rekeyed C policies)"
    "distinct (map fst ps')"
    by auto
  have lb: "LoadBundle C policies version e
              = (None, e\<lparr>policySet := ps', policyVersion := version\<rparr>)"
    by (simp add: LoadBundle_def ps'(1))
  show "fst (LoadBundle C policies version e) = None"
    by (simp add: lb)
  show "policyVersion (snd (LoadBundle C policies version e)) = version"
    by (simp add: lb)
  show "fst ` set (policySet (snd (LoadBundle C policies version e)))
          = fst ` set (rekeyed C policies)"
    by (simp add: lb ps'(3))
  show "distinct (map fst (policySet (snd (LoadBundle C policies version e))))"
    by (simp add: lb ps'(4))
  assume d: "distinct (map fst (rekeyed C policies))"
  show "\<forall>(k, p) \<in> set (rekeyed C policies).
          map_of (policySet (snd (LoadBundle C policies version e))) k = Some p"
    using map_of_rev_distinct [OF d] by (auto simp: lb ps'(2))
qed

theorem LoadBundle_all_or_nothing_witness:
  "LoadBundle sample_cedar [(''a.cedar'', ''permit''), (''b.cedar'', ''bad'')] ''v2'' loaded_engine
     = (Some (Wrap ''parse b.cedar: '' (Msg ''parse error'')), loaded_engine)
   \<and> (\<exists>err. LoadBundle sample_cedar [(''a.cedar'', ''permit''), (''b.cedar'', ''bad'')] ''v2''
               loaded_engine = (Some err, loaded_engine))
   \<and> LoadBundle sample_cedar [(''a.cedar'', ''permit'')] ''v2'' loaded_engine
     = (None, \<lparr>policySet = [(''a.cedar:policy0'', 0), (''a.cedar:policy1'', 1)],
               policyVersion = ''v2''\<rparr>)
   \<and> map_of (policySet (snd (LoadBundle sample_cedar [(''a.cedar'', ''permit'')] ''v2''
                                loaded_engine))) ''a.cedar:policy1'' = Some 1"
proof -
  have bad: "\<exists>(f, c) \<in> set [(''a.cedar'', ''permit''), (''b.cedar'', ''bad'')].
               isl (NewPolicySetFromBytes sample_cedar f c)"
    by (simp add: sample_cedar_def)
  have good: "\<forall>(f, c) \<in> set [(''a.cedar'', ''permit'')].
                \<not> isl (NewPolicySetFromBytes sample_cedar f c)"
    by (simp add: sample_cedar_def)
  have rk: "rekeyed sample_cedar [(''a.cedar'', ''permit'')]
              = [(''a.cedar:policy0'', 0), (''a.cedar:policy1'', 1)]"
    by (simp add: rekeyed_def sample_cedar_def)
  have ev1: "LoadBundle sample_cedar [(''a.cedar'', ''permit''), (''b.cedar'', ''bad'')] ''v2''
               loaded_engine
             = (Some (Wrap ''parse b.cedar: '' (Msg ''parse error'')), loaded_engine)"
    by (simp add: LoadBundle_def sample_cedar_def)
  have ev2: "LoadBundle sample_cedar [(''a.cedar'', ''permit'')] ''v2'' loaded_engine
     = (None, \<lparr>policySet = [(''a.cedar:policy0'', 0), (''a.cedar:policy1'', 1)],
               policyVersion = ''v2''\<rparr>)"
    by (simp add: LoadBundle_def sample_cedar_def loaded_engine_def)
  from LoadBundle_all_or_nothing
         [of "[(''a.cedar'', ''permit''), (''b.cedar'', ''bad'')]" sample_cedar "''v2''" loaded_engine]
       bad
  have w1: "\<exists>err. LoadBundle sample_cedar [(''a.cedar'', ''permit''), (''b.cedar'', ''bad'')] ''v2''
               loaded_engine = (Some err, loaded_engine)"
    by blast
  from LoadBundle_all_or_nothing
         [of "[(''a.cedar'', ''permit'')]" sample_cedar "''v2''" loaded_engine] good
  have "distinct (map fst (rekeyed sample_cedar [(''a.cedar'', ''permit'')])) \<longrightarrow>
            (\<forall>(k, p) \<in> set (rekeyed sample_cedar [(''a.cedar'', ''permit'')]).
                map_of (policySet (snd (LoadBundle sample_cedar [(''a.cedar'', ''permit'')] ''v2''
                   loaded_engine))) k = Some p)"
    by blast
  then have w2: "map_of (policySet (snd (LoadBundle sample_cedar [(''a.cedar'', ''permit'')] ''v2''
                                loaded_engine))) ''a.cedar:policy1'' = Some 1"
    by (simp add: rk)
  show ?thesis
    using ev1 w1 ev2 w2 by blast
qed

lemma colon_split_inj:
  assumes "CHR '':'' \<notin> set n1" and "CHR '':'' \<notin> set n2"
    and "f1 @ '':'' @ n1 = f2 @ '':'' @ n2"
  shows "f1 = f2 \<and> n1 = n2"
proof -
  let ?P = "\<lambda>c. c \<noteq> CHR '':''"
  from assms(3) have "rev (f1 @ '':'' @ n1) = rev (f2 @ '':'' @ n2)"
    by simp
  then have eq: "rev n1 @ CHR '':'' # rev f1 = rev n2 @ CHR '':'' # rev f2"
    by simp
  have t1: "takeWhile ?P (rev n1 @ CHR '':'' # rev f1) = rev n1"
    using assms(1) by (auto simp: takeWhile_tail)
  have t2: "takeWhile ?P (rev n2 @ CHR '':'' # rev f2) = rev n2"
    using assms(2) by (auto simp: takeWhile_tail)
  from eq t1 t2 have n: "n1 = n2"
    by (metis rev_is_rev_conv)
  with assms(3) show ?thesis
    by simp
qed

lemma rekeyed_Cons:
  "rekeyed C ((f, c) # policies) =
     (case NewPolicySetFromBytes C f c of
        Inl err \<Rightarrow> []
      | Inr parsed \<Rightarrow> map (\<lambda>(name, p). (f @ '':'' @ name, p)) parsed) @ rekeyed C policies"
  by (simp add: rekeyed_def)

lemma rekeyed_key_origin:
  assumes "(k, p) \<in> set (rekeyed C policies)"
  shows "\<exists>f c parsed name. (f, c) \<in> set policies \<and> NewPolicySetFromBytes C f c = Inr parsed
           \<and> (name, p) \<in> set parsed \<and> k = f @ '':'' @ name"
  using assms
proof (induction policies)
  case Nil
  then show ?case by (simp add: rekeyed_def)
next
  case (Cons x policies)
  obtain f c where x: "x = (f, c)" by (cases x)
  show ?case
  proof (cases "(k, p) \<in> set (rekeyed C policies)")
    case True
    from Cons.IH [OF True] show ?thesis
      by (metis list.set_intros(2))
  next
    case False
    with Cons.prems x obtain parsed where parsed: "NewPolicySetFromBytes C f c = Inr parsed"
      and mem: "(k, p) \<in> set (map (\<lambda>(name, p). (f @ '':'' @ name, p)) parsed)"
      by (cases "NewPolicySetFromBytes C f c") (simp_all add: rekeyed_Cons)
    from mem obtain name where "(name, p) \<in> set parsed" "k = f @ '':'' @ name"
      by auto
    with parsed x show ?thesis
      by (metis list.set_intros(1))
  qed
qed

text \<open>
  The names are distinct when the parser keeps its contract: the ids of one file are
  distinct and hold no colon (cedar-go numbers them \<^verbatim>\<open>policy0\<close>, \<^verbatim>\<open>policy1\<close>, ...), and the
  file names, keys of a map, are distinct.
\<close>

lemma rekeyed_distinct:
  assumes files: "distinct (map fst policies)"
    and ids: "\<forall>(f, c) \<in> set policies. \<forall>parsed. NewPolicySetFromBytes C f c = Inr parsed \<longrightarrow>
                distinct (map fst parsed) \<and> (\<forall>(name, p) \<in> set parsed. CHR '':'' \<notin> set name)"
  shows "distinct (map fst (rekeyed C policies))"
  using assms
proof (induction policies)
  case Nil
  then show ?case by (simp add: rekeyed_def)
next
  case (Cons x policies)
  obtain f c where x: "x = (f, c)" by (cases x)
  have IH: "distinct (map fst (rekeyed C policies))"
    using Cons by simp
  show ?case
  proof (cases "NewPolicySetFromBytes C f c")
    case (Inl err)
    then have "rekeyed C (x # policies) = rekeyed C policies"
      by (simp add: rekeyed_def x)
    with IH show ?thesis by simp
  next
    case (Inr parsed)
    have rk: "rekeyed C (x # policies)
                = map (\<lambda>(name, p). (f @ '':'' @ name, p)) parsed @ rekeyed C policies"
      by (simp add: rekeyed_def x Inr)
    from Cons.prems(2) x Inr have dp: "distinct (map fst parsed)"
      and nc: "\<forall>(name, p) \<in> set parsed. CHR '':'' \<notin> set name"
      by auto
    have inj: "inj_on (\<lambda>name. f @ '':'' @ name) (set (map fst parsed))"
      by (rule inj_onI) simp
    have d1: "distinct (map fst (map (\<lambda>(name, p). (f @ '':'' @ name, p)) parsed))"
    proof -
      have "map fst (map (\<lambda>(name, p). (f @ '':'' @ name, p)) parsed)
              = map (\<lambda>name. f @ '':'' @ name) (map fst parsed)"
        by (simp add: case_prod_unfold comp_def)
      then show ?thesis
        using dp inj by (simp add: distinct_map del: map_map)
    qed
    have disj: "fst ` set (map (\<lambda>(name, p). (f @ '':'' @ name, p)) parsed)
                  \<inter> fst ` set (rekeyed C policies) = {}"
    proof (rule ccontr)
      assume "\<not> ?thesis"
      then obtain k where k1: "k \<in> fst ` set (map (\<lambda>(name, p). (f @ '':'' @ name, p)) parsed)"
        and k2: "k \<in> fst ` set (rekeyed C policies)"
        by blast
      from k1 obtain name p where np: "(name, p) \<in> set parsed" "k = f @ '':'' @ name"
        by auto
      from k2 obtain p' where "(k, p') \<in> set (rekeyed C policies)"
        by auto
      from rekeyed_key_origin [OF this] obtain f' c' parsed' name' where r:
        "(f', c') \<in> set policies" "NewPolicySetFromBytes C f' c' = Inr parsed'"
        "(name', p') \<in> set parsed'" "k = f' @ '':'' @ name'"
        by blast
      from Cons.prems(2) r(1,2,3) have "CHR '':'' \<notin> set name'"
        by fastforce
      moreover from nc np(1) have "CHR '':'' \<notin> set name"
        by auto
      ultimately have "f = f'"
        using colon_split_inj [of name name' f f'] np(2) r(4) by simp
      moreover have "f \<notin> fst ` set policies"
        using Cons.prems(1) x by simp
      ultimately show False
        using r(1) by force
    qed
    show ?thesis
      using d1 IH disj by (simp only: rk map_append distinct_append set_map simp_thms)
  qed
qed

subsection \<open>Fetching the bundle\<close>

lemma ReadAllLimit_bound: "ReadAllLimit n resp = Inr body \<Longrightarrow> length body \<le> n"
  by (auto simp: ReadAllLimit_def split: if_splits option.splits)

lemma fetchRequest_If_None_Match:
  "Header_Get (hr_Header (fetchRequest f)) ''If-None-Match'' = etag f"
  by (simp add: fetchRequest_def Header_Get_def Header_Set_def Let_def update_conv')

lemma fetchRequest_Tenant:
  "Header_Get (hr_Header (fetchRequest f)) ''X-Tenant-ID'' = tenantID_f f"
  by (simp add: fetchRequest_def Header_Get_def Header_Set_def Let_def update_conv')

text \<open>
  Claim C7. For every response to the request of \<^verbatim>\<open>Fetch\<close>: with status 200 and a body
  that reads (at most 50 MiB of it) and decodes, the result is the decoded bundle with
  \<^verbatim>\<open>Changed = true\<close>, the fetcher remembers the entity tag of the response when it has one
  (it keeps the old tag otherwise), and the next request carries the remembered tag as
  \<^verbatim>\<open>If-None-Match\<close>; a body that does not read or does not decode gives an error. Status
  304 and status 404 give \<^verbatim>\<open>Changed = false\<close> with no bundle and no error. Every other
  status gives an error. In all but the first case the fetcher is unchanged.
\<close>

theorem Fetch_by_status:
  assumes "NewRequestErr H ''GET'' (baseURL f @ ''/api/v1/policies/bundle'') = None"
    and "Do H (fetchRequest f) = Inr resp"
  shows
   "(StatusCode resp = 200 \<and> ReadAllLimit (50 * 2 ^ 20) resp = Inr body
       \<and> UnmarshalBundle H body = Inr bundle \<longrightarrow>
         fst (Fetch H f) = Inr \<lparr>Bundle = Some bundle, Changed = True\<rparr>
       \<and> length body \<le> 50 * 2 ^ 20
       \<and> etag (snd (Fetch H f)) =
           (if Header_Get (Header resp) ''ETag'' \<noteq> [] then Header_Get (Header resp) ''ETag''
            else etag f)
       \<and> Header_Get (hr_Header (fetchRequest (snd (Fetch H f)))) ''If-None-Match''
           = etag (snd (Fetch H f)))
    \<and> (StatusCode resp = 200 \<and> ReadAllLimit (50 * 2 ^ 20) resp = Inr body
       \<and> UnmarshalBundle H body = Inl err \<longrightarrow>
         Fetch H f = (Inl (Wrap ''decode bundle: '' err), f))
    \<and> (StatusCode resp = 200 \<and> ReadAllLimit (50 * 2 ^ 20) resp = Inl err \<longrightarrow>
         Fetch H f = (Inl (Wrap ''read bundle body: '' err), f))
    \<and> (StatusCode resp = 304 \<or> StatusCode resp = 404 \<longrightarrow>
         Fetch H f = (Inr \<lparr>Bundle = None, Changed = False\<rparr>, f))
    \<and> (StatusCode resp \<noteq> 200 \<and> StatusCode resp \<noteq> 304 \<and> StatusCode resp \<noteq> 404 \<longrightarrow>
         Fetch H f = (Inl (FmtD ''unexpected status '' (StatusCode resp)
                             '' from policy bundle API''), f))"
  using assms ReadAllLimit_bound [of "50 * 2 ^ 20" resp body]
  by (auto simp: Fetch_def fetchRequest_If_None_Match)


lemma sample_first_response:
  "Do sample_http (fetchRequest sample_fetcher)
     = Inr \<lparr>StatusCode = 200, Header = [(''ETag'', ''W1'')], Body = ''bundle'', BodyErr = None\<rparr>"
  by (simp add: sample_http_def fetchRequest_If_None_Match sample_fetcher_def NewFetcher_def)

lemma sample_second_response:
  "Do sample_http (fetchRequest (sample_fetcher\<lparr>etag := ''W1''\<rparr>))
     = Inr \<lparr>StatusCode = 304, Header = [], Body = [], BodyErr = None\<rparr>"
  by (simp add: sample_http_def fetchRequest_If_None_Match)

theorem Fetch_by_status_witness:
  "fst (Fetch sample_http sample_fetcher) = Inr \<lparr>Bundle = Some sample_bundle, Changed = True\<rparr>
   \<and> etag (snd (Fetch sample_http sample_fetcher)) = ''W1''
   \<and> Header_Get (hr_Header (fetchRequest (snd (Fetch sample_http sample_fetcher))))
        ''If-None-Match'' = ''W1''
   \<and> Fetch sample_http (sample_fetcher\<lparr>etag := ''W1''\<rparr>)
        = (Inr \<lparr>Bundle = None, Changed = False\<rparr>, sample_fetcher\<lparr>etag := ''W1''\<rparr>)
   \<and> Fetch (answering \<lparr>StatusCode = 404, Header = [], Body = [], BodyErr = None\<rparr>) sample_fetcher
        = (Inr \<lparr>Bundle = None, Changed = False\<rparr>, sample_fetcher)
   \<and> Fetch (answering \<lparr>StatusCode = 500, Header = [], Body = ''error'', BodyErr = None\<rparr>)
          sample_fetcher
        = (Inl (FmtD ''unexpected status '' 500 '' from policy bundle API''), sample_fetcher)
   \<and> Fetch (answering \<lparr>StatusCode = 200, Header = [(''ETag'', ''W2'')], Body = ''garbage'',
                         BodyErr = None\<rparr>) sample_fetcher
        = (Inl (Wrap ''decode bundle: '' (Msg ''invalid character'')), sample_fetcher)
   \<and> Fetch (answering \<lparr>StatusCode = 200, Header = [(''ETag'', ''W2'')], Body = ''bun'',
                         BodyErr = Some (Msg ''unexpected EOF'')\<rparr>) sample_fetcher
        = (Inl (Wrap ''read bundle body: '' (Msg ''unexpected EOF'')), sample_fetcher)"
proof -
  have nr: "NewRequestErr sample_http ''GET'' (baseURL f @ ''/api/v1/policies/bundle'') = None"
    for f :: Fetcher
    by (simp add: sample_http_def)
  have nr': "NewRequestErr (answering resp) ''GET'' (baseURL f @ ''/api/v1/policies/bundle'') = None"
    for f :: Fetcher and resp
    by (simp add: answering_def sample_http_def)
  have ans: "Do (answering resp) (fetchRequest f) = Inr resp" for resp and f :: Fetcher
    by (simp add: answering_def)
  have un: "UnmarshalBundle (answering resp) = UnmarshalBundle sample_http" for resp
    by (simp add: answering_def)
  let ?resp = "\<lparr>StatusCode = 200, Header = [(''ETag'', ''W1'')], Body = ''bundle'',
                 BodyErr = None\<rparr>"
  have body: "ReadAllLimit (50 * 2 ^ 20) ?resp = Inr ''bundle''"
    by (simp add: ReadAllLimit_def)
  have unb: "UnmarshalBundle sample_http ''bundle'' = Inr sample_bundle"
    by (simp add: sample_http_def)
  from Fetch_by_status [OF nr sample_first_response, of "''bundle''" sample_bundle] body unb
  have first: "fst (Fetch sample_http sample_fetcher)
                  = Inr \<lparr>Bundle = Some sample_bundle, Changed = True\<rparr>
     \<and> etag (snd (Fetch sample_http sample_fetcher)) = ''W1''
     \<and> Header_Get (hr_Header (fetchRequest (snd (Fetch sample_http sample_fetcher))))
          ''If-None-Match'' = ''W1''"
    by (simp add: Header_Get_def)
  from Fetch_by_status [OF nr sample_second_response]
  have second: "Fetch sample_http (sample_fetcher\<lparr>etag := ''W1''\<rparr>)
        = (Inr \<lparr>Bundle = None, Changed = False\<rparr>, sample_fetcher\<lparr>etag := ''W1''\<rparr>)"
    by simp
  let ?missing = "\<lparr>StatusCode = 404, Header = [], Body = [], BodyErr = None\<rparr>"
  from Fetch_by_status [OF nr' [of ?missing sample_fetcher] ans [of ?missing sample_fetcher]]
  have third: "Fetch (answering \<lparr>StatusCode = 404, Header = [], Body = [], BodyErr = None\<rparr>)
                 sample_fetcher = (Inr \<lparr>Bundle = None, Changed = False\<rparr>, sample_fetcher)"
    by simp
  let ?failed = "\<lparr>StatusCode = 500, Header = [], Body = ''error'', BodyErr = None\<rparr>"
  from Fetch_by_status [OF nr' [of ?failed sample_fetcher] ans [of ?failed sample_fetcher]]
  have fourth: "Fetch (answering \<lparr>StatusCode = 500, Header = [], Body = ''error'', BodyErr = None\<rparr>)
          sample_fetcher
        = (Inl (FmtD ''unexpected status '' 500 '' from policy bundle API''), sample_fetcher)"
    by simp
  let ?garbage = "\<lparr>StatusCode = 200, Header = [(''ETag'', ''W2'')], Body = ''garbage'',
                         BodyErr = None\<rparr>"
  have gbody: "ReadAllLimit (50 * 2 ^ 20) ?garbage = Inr ''garbage''"
    by (simp add: ReadAllLimit_def)
  have gun: "UnmarshalBundle (answering ?garbage) ''garbage'' = Inl (Msg ''invalid character'')"
    by (simp add: un sample_http_def)
  from Fetch_by_status [OF nr' [of ?garbage sample_fetcher] ans [of ?garbage sample_fetcher],
         of "''garbage''" _ "Msg ''invalid character''"] gbody gun
  have fifth: "Fetch (answering ?garbage) sample_fetcher
        = (Inl (Wrap ''decode bundle: '' (Msg ''invalid character'')), sample_fetcher)"
    by simp
  let ?broken = "\<lparr>StatusCode = 200, Header = [(''ETag'', ''W2'')], Body = ''bun'',
                         BodyErr = Some (Msg ''unexpected EOF'')\<rparr>"
  have bbody: "ReadAllLimit (50 * 2 ^ 20) ?broken = Inl (Msg ''unexpected EOF'')"
    by (simp add: ReadAllLimit_def)
  from Fetch_by_status [OF nr' [of ?broken sample_fetcher] ans [of ?broken sample_fetcher],
         of _ _ "Msg ''unexpected EOF''"] bbody
  have sixth: "Fetch (answering ?broken) sample_fetcher
        = (Inl (Wrap ''read bundle body: '' (Msg ''unexpected EOF'')), sample_fetcher)"
    by simp
  from first second third fourth fifth sixth show ?thesis
    by blast
qed

subsection \<open>Token caches\<close>

lemma int64_in_range:
  "- (2 ^ 63) \<le> x \<Longrightarrow> x < 2 ^ 63 \<Longrightarrow> int64 x = x"
  by (simp add: int64_def sint_sbintrunc' signed_take_bit_int_eq_self)
























lemma sample_vault_acquires:
  "getOIDCToken sample_lib sample_http sample_clock sample_vault
     = (Inr ''oidc-1'',
        sample_vault\<lparr>OidcToken := ''oidc-1'', OidcExpiry := 1003 + 600 * Second,
                      vaultToken := ''vault-1'', vaultExp := 1002 + 7200 * Second\<rparr>,
        [\<lparr>hr_Method = ''POST'', hr_URL = ''http://v/v1/auth/approle/login'',
          hr_Header = [(''Content-Type'', ''application/json'')],
          hr_Body = ''{'' @ dq @ ''role_id'' @ dq @ '':'' @ dq @ ''r'' @ dq @ '','' @
                    dq @ ''secret_id'' @ dq @ '':'' @ dq @ ''s'' @ dq @ ''}''\<rparr>,
         \<lparr>hr_Method = ''GET'', hr_URL = ''http://v/v1/identity/oidc/token/dome-agent'',
          hr_Header = [(''X-Vault-Token'', ''vault-1'')], hr_Body = []\<rparr>])"
  by (simp add: getOIDCToken_def ensureVaultToken_def loginAppRole_def vaultLogin_def
      requestOIDCToken_def sample_vault_def vault_NewTransport_def emptyVaultConfig_def
      sample_http_def sample_lib_def sample_clock_def Header_Set_def Let_def int64_def Second_def)

subsection \<open>Idempotent registration\<close>

text \<open>
  What holds of the registration in general. \<^verbatim>\<open>Start\<close> returns unless it has to wait for
  a worker that stands at a lock. After a rejection with the code
  \<^verbatim>\<open>AlreadyExists\<close> the client calls \<^verbatim>\<open>ListAgents\<close> with limit 100 next; when the response
  lists an agent under the requested name, \<^verbatim>\<open>Start\<close> returns the identity of the first
  such agent and stores its id; when \<^verbatim>\<open>Start\<close> returns an error, the listing failed, so
  that no agent was listed, or no agent of the response has the name.
\<close>

lemma doRegister_already_exists:
  assumes "RegisterAgent R
             \<lparr>rr_Name = so_Name opts, rr_Capabilities = so_Capabilities opts,
              rr_Metadata = so_Metadata opts,
              rr_ParentId = (if so_ParentID opts \<noteq> [] then Some (so_ParentID opts) else None)\<rparr> b
           = (Inl err, b1)"
    and "CodeOf err = CodeAlreadyExists"
  shows "doRegister R opts (c, b) =
           findExistingAgent R (so_Name opts)
             (c\<lparr>trace := trace c @
                 [Call_RegisterAgent
                    \<lparr>rr_Name = so_Name opts, rr_Capabilities = so_Capabilities opts,
                     rr_Metadata = so_Metadata opts,
                     rr_ParentId = (if so_ParentID opts \<noteq> [] then Some (so_ParentID opts)
                                    else None)\<rparr>]\<rparr>, b1)"
  using assms by (simp add: doRegister_def Let_def)

lemma findExistingAgent_trace:
  "trace (fst (snd (findExistingAgent R name (c, b)))) = trace c @ [Call_ListAgents 100]"
  by (simp add: findExistingAgent_def Let_def split: prod.split sum.split option.split)

lemma findExistingAgent_found:
  assumes "ListAgents R 100 b = (Inr listed, b2)"
    and "find (\<lambda>a. ag_Name a = name) listed = Some a"
  shows "findExistingAgent R name (c, b) =
           (Inr (agentFromProto (Some a) []), c\<lparr>trace := trace c @ [Call_ListAgents 100]\<rparr>, b2)"
  using assms by (simp add: findExistingAgent_def Let_def)

lemma findExistingAgent_error:
  assumes "fst (findExistingAgent R name (c, b)) = Inl e"
  shows "case fst (ListAgents R 100 b) of
           Inl err \<Rightarrow> e = Wrap (errorf ''list agents for idempotent registration: '') err
         | Inr listed \<Rightarrow> find (\<lambda>a. ag_Name a = name) listed = None
              \<and> e = FmtQ (errorf ''agent '') name '' already exists but could not be found''"
  using assms
  by (auto simp: findExistingAgent_def Let_def split: prod.splits sum.splits option.splits)

lemma doRegister_keeps_cancel: "cancel (fst (snd (doRegister R opts (c, b)))) = cancel c"
  by (simp add: doRegister_def findExistingAgent_def Let_def
      split: prod.split sum.split option.split)

lemma stopWorker_returns:
  "cancel c = None \<or> s = Cancellable \<Longrightarrow> \<exists>c'. stopWorker s c = Some c'"
  by (auto simp: stopWorker_def split: option.split)

lemma Start_returns:
  assumes "cancel c = None \<or> s = Cancellable"
  shows "\<exists>r. Start R s opts (c, b) = Some r"
proof -
  obtain res c1 b1 where d: "doRegister R opts (c, b) = (res, c1, b1)"
    by (cases "doRegister R opts (c, b)")
  from doRegister_keeps_cancel [of R opts c b] d have "cancel c1 = cancel c"
    by simp
  with assms show ?thesis
    by (auto simp: Start_def d startHeartbeat_def startBackgroundRegistration_def
        stopWorker_def reportEvent_def reportEventForAgent_def setAgentID_def AgentID_def
        split: sum.split option.split prod.split)
qed

lemma Start_success:
  assumes "so_Name opts \<noteq> []" and "doRegister R opts w = (Inr info, c1, b1)"
    and "Start R s opts w = Some (res, c', b')"
  shows "res = Inr info \<and> AgentID c' = ID info
         \<and> b' = (if ID info = [] then b1 else snd (ReportEvent R (ID info) ''agent.started'' b1))
         \<and> (cancel c' = cancel c1 \<or> cancel c' = Some (HeartbeatLoop (ID info)))"
  using assms
  by (auto simp: Start_def reportEvent_def reportEventForAgent_def AgentID_def setAgentID_def
      startHeartbeat_def stopWorker_def Let_def split: prod.splits option.splits if_splits)

lemma Start_error:
  assumes "Start R s opts w = Some (Inl e, w')" and "so_Name opts \<noteq> []"
  shows "fst (doRegister R opts w) = Inl e"
  using assms
  by (auto simp: Start_def split: prod.splits sum.splits if_splits option.splits)

lemma Start_adoption:
  assumes name: "so_Name opts \<noteq> []"
    and rejected: "RegisterAgent R
             \<lparr>rr_Name = so_Name opts, rr_Capabilities = so_Capabilities opts,
              rr_Metadata = so_Metadata opts,
              rr_ParentId = (if so_ParentID opts \<noteq> [] then Some (so_ParentID opts) else None)\<rparr> b
           = (Inl err, b')"
    and code: "CodeOf err = CodeAlreadyExists"
  shows
    "trace (fst (snd (doRegister R opts (c :: 'p Client, b)))) =
       trace c @ [Call_RegisterAgent
                    \<lparr>rr_Name = so_Name opts, rr_Capabilities = so_Capabilities opts,
                     rr_Metadata = so_Metadata opts,
                     rr_ParentId = (if so_ParentID opts \<noteq> [] then Some (so_ParentID opts)
                                    else None)\<rparr>,
                  Call_ListAgents 100]
     \<and> (ListAgents R 100 b' = (Inr listed, b'')
          \<and> find (\<lambda>a. ag_Name a = so_Name opts) listed = Some a
          \<and> Start R s opts (c, b) = Some (res, c', b3) \<longrightarrow>
            res = Inr (agentFromProto (Some a) [])
          \<and> ID (agentFromProto (Some a) []) = ag_Id a
          \<and> ag_Name a = so_Name opts
          \<and> AgentID c' = ag_Id a)
     \<and> (Start R s opts (c, b) = Some (Inl e, w') \<longrightarrow>
          (case fst (ListAgents R 100 b') of
             Inl lerr \<Rightarrow> True
           | Inr listed \<Rightarrow> \<forall>a \<in> set listed. ag_Name a \<noteq> so_Name opts))"
proof (intro conjI impI)
  let ?c1 = "c\<lparr>trace := trace c @
                 [Call_RegisterAgent
                    \<lparr>rr_Name = so_Name opts, rr_Capabilities = so_Capabilities opts,
                     rr_Metadata = so_Metadata opts,
                     rr_ParentId = (if so_ParentID opts \<noteq> [] then Some (so_ParentID opts)
                                    else None)\<rparr>]\<rparr>"
  have dr: "doRegister R opts (c, b) = findExistingAgent R (so_Name opts) (?c1, b')"
    using rejected code by (rule doRegister_already_exists)
  show "trace (fst (snd (doRegister R opts (c, b)))) =
       trace c @ [Call_RegisterAgent
                    \<lparr>rr_Name = so_Name opts, rr_Capabilities = so_Capabilities opts,
                     rr_Metadata = so_Metadata opts,
                     rr_ParentId = (if so_ParentID opts \<noteq> [] then Some (so_ParentID opts)
                                    else None)\<rparr>,
                  Call_ListAgents 100]"
    by (simp add: dr findExistingAgent_trace)
  {
    assume l: "ListAgents R 100 b' = (Inr listed, b'')
                \<and> find (\<lambda>a. ag_Name a = so_Name opts) listed = Some a
                \<and> Start R s opts (c, b) = Some (res, c', b3)"
    then have f: "doRegister R opts (c, b) =
            (Inr (agentFromProto (Some a) []), ?c1\<lparr>trace := trace ?c1 @ [Call_ListAgents 100]\<rparr>, b'')"
      using findExistingAgent_found [of R b' listed b'' "so_Name opts" a ?c1] dr by simp
    from l have st: "Start R s opts (c, b) = Some (res, c', b3)"
      by simp
    from Start_success [OF name f st]
    show "res = Inr (agentFromProto (Some a) [])" and "AgentID c' = ag_Id a"
      by (simp_all add: agentFromProto_def)
    show "ID (agentFromProto (Some a) []) = ag_Id a"
      by (simp add: agentFromProto_def)
    from l show "ag_Name a = so_Name opts"
      by (auto simp: find_Some_iff)
  }
  {
    assume "Start R s opts (c, b) = Some (Inl e, w')"
    from Start_error [OF this name] have "fst (findExistingAgent R (so_Name opts) (?c1, b')) = Inl e"
      by (simp add: dr)
    from findExistingAgent_error [OF this]
    show "case fst (ListAgents R 100 b') of
             Inl lerr \<Rightarrow> True
           | Inr listed \<Rightarrow> \<forall>a \<in> set listed. ag_Name a \<noteq> so_Name opts"
      by (auto simp: find_None_iff split: sum.splits)
  }
qed

text \<open>
  The mock of the tests lists every agent, whatever the limit is. Against it, in any
  state, two successive calls of \<^verbatim>\<open>Start\<close> return the same agent id, when the worker that
  the second call stops can be cancelled.
\<close>

lemma mock_event_keeps_state: "snd (ReportEvent mockRegistry i ev h) = h"
  by (simp add: mockRegistry_def mock_ReportEvent_def)

lemma find_after_update:
  "find P (map snd al) = None \<Longrightarrow> P v \<Longrightarrow> find P (map snd (AList.update k v al)) = Some v"
  by (induction al) (auto split: if_splits)

lemma mock_doRegister:
  "\<exists>a c1 h1 tok. doRegister mockRegistry opts (c, h) = (Inr (agentFromProto (Some a) tok), c1, h1)
      \<and> find (\<lambda>a. ag_Name a = so_Name opts) (map snd (agents h1)) = Some a
      \<and> (find (\<lambda>a. ag_Name a = so_Name opts) (map snd (agents h)) \<noteq> None \<longrightarrow>
            find (\<lambda>a. ag_Name a = so_Name opts) (map snd (agents h)) = Some a)"
proof (cases "find (\<lambda>a. ag_Name a = so_Name opts) (map snd (agents h))")
  case (Some a)
  then have "doRegister mockRegistry opts (c, h)
               = (Inr (agentFromProto (Some a) []),
                  c\<lparr>trace := trace c @
                      [Call_RegisterAgent
                         \<lparr>rr_Name = so_Name opts, rr_Capabilities = so_Capabilities opts,
                          rr_Metadata = so_Metadata opts,
                          rr_ParentId = (if so_ParentID opts \<noteq> [] then Some (so_ParentID opts)
                                         else None)\<rparr>,
                       Call_ListAgents 100]\<rparr>, h)"
    by (simp add: doRegister_def mockRegistry_def mock_RegisterAgent_def mock_ListAgents_def
        findExistingAgent_def Let_def)
  with Some show ?thesis
    by blast
next
  case None
  let ?agent = "\<lparr>ag_Id = ''agent-'' @ itoa (nextID h + 1), ag_Name = so_Name opts,
                  ag_Status = ''AGENT_STATUS_ACTIVE'',
                  ag_Capabilities = so_Capabilities opts, ag_Metadata = so_Metadata opts\<rparr>"
  have "find (\<lambda>a. ag_Name a = so_Name opts)
          (map snd (AList.update (ag_Id ?agent) ?agent (agents h))) = Some ?agent"
    using find_after_update [OF None, of ?agent "ag_Id ?agent"] by simp
  then have f: "find (\<lambda>a. ag_Name a = so_Name opts)
          (map snd (agents (h\<lparr>agents := AList.update (ag_Id ?agent) ?agent (agents h),
                               nextID := nextID h + 1\<rparr>))) = Some ?agent"
    by simp
  from None have d: "doRegister mockRegistry opts (c, h)
               = (Inr (agentFromProto (Some ?agent) ''test-token''),
                  c\<lparr>trace := trace c @
                      [Call_RegisterAgent
                         \<lparr>rr_Name = so_Name opts, rr_Capabilities = so_Capabilities opts,
                          rr_Metadata = so_Metadata opts,
                          rr_ParentId = (if so_ParentID opts \<noteq> [] then Some (so_ParentID opts)
                                         else None)\<rparr>]\<rparr>,
                  h\<lparr>agents := AList.update (ag_Id ?agent) ?agent (agents h),
                    nextID := nextID h + 1\<rparr>)"
    by (simp add: doRegister_def mockRegistry_def mock_RegisterAgent_def Let_def)
  show ?thesis
    unfolding d using f None by blast
qed

lemma mock_Start_twice:
  assumes name: "so_Name opts \<noteq> []"
  shows "\<exists>i1 w1 i2 w2. Start mockRegistry Cancellable opts (c, h) = Some (Inr i1, w1)
           \<and> Start mockRegistry Cancellable opts w1 = Some (Inr i2, w2)
           \<and> ID i1 = ID i2"
proof -
  from mock_doRegister [of opts c h]
  obtain a c1 h1 tok where d1: "doRegister mockRegistry opts (c, h)
                                  = (Inr (agentFromProto (Some a) tok), c1, h1)"
    and f1: "find (\<lambda>a. ag_Name a = so_Name opts) (map snd (agents h1)) = Some a"
    by blast
  from Start_returns [of c Cancellable mockRegistry opts h]
  obtain res c' b' where s1: "Start mockRegistry Cancellable opts (c, h) = Some (res, c', b')"
    by (metis prod.exhaust)
  from Start_success [OF name d1 s1] mock_event_keeps_state
  have r1: "res = Inr (agentFromProto (Some a) tok)" and b': "b' = h1"
    by auto
  from mock_doRegister [of opts c' h1] f1
  obtain c2 h2 tok2 where d2: "doRegister mockRegistry opts (c', h1)
                                  = (Inr (agentFromProto (Some a) tok2), c2, h2)"
    by auto
  from Start_returns [of c' Cancellable mockRegistry opts h1]
  obtain res2 c'' b'' where s2: "Start mockRegistry Cancellable opts (c', h1)
                                   = Some (res2, c'', b'')"
    by (metis prod.exhaust)
  from Start_success [OF name d2 s2]
  have r2: "res2 = Inr (agentFromProto (Some a) tok2)"
    by simp
  from s1 r1 b' s2 r2 show ?thesis
    by (simp add: agentFromProto_def)
qed

text \<open>
  A second \<^verbatim>\<open>Start\<close> of the sample client against the mock adopts the agent of the first,
  after a rejected registration and one listing; against a control plane whose listing
  fails it returns the error of the listing.
\<close>

lemma Start_again_sample:
  "(case Start mockRegistry Cancellable sample_opts started_world of
      None \<Rightarrow> False
    | Some (res, c, b) \<Rightarrow>
        res = Inr \<lparr>ID = ''agent-1'', Name = ''a1'', Status = ''AGENT_STATUS_ACTIVE'',
                   Capabilities = [], Metadata = [], Token = []\<rparr>
      \<and> AgentID c = ''agent-1''
      \<and> b = snd started_world
      \<and> trace c = trace (fst started_world)
           @ [Call_RegisterAgent \<lparr>rr_Name = ''a1'', rr_Capabilities = [], rr_Metadata = [],
                                   rr_ParentId = None\<rparr>,
              Call_ListAgents 100,
              Call_ReportEvent ''agent-1'' ''agent.started'',
              Cancel, AwaitStopped, Go (HeartbeatLoop ''agent-1'')])"
  by (simp add: started_world_def Start_def doRegister_def findExistingAgent_def sample_opts_def
      sample_client_def mockRegistry_def mock_RegisterAgent_def mock_ListAgents_def
      agentFromProto_def reportEvent_def reportEventForAgent_def AgentID_def setAgentID_def
      startHeartbeat_def stopWorker_def mock_ReportEvent_def defaultConfig_def Let_def)

lemma Start_unlisted:
  "(case Start unlisted_registry s sample_opts started_world of
      None \<Rightarrow> False
    | Some (res, c, b) \<Rightarrow>
        res = Inl (Wrap (errorf ''list agents for idempotent registration: '')
                     (Connect CodeUnavailable [])))"
  by (simp add: started_world_def Start_def doRegister_def findExistingAgent_def
      unlisted_registry_def mockRegistry_def mock_RegisterAgent_def sample_opts_def
      sample_client_def defaultConfig_def Let_def)

text \<open>
  Claim C8. After the code \<^verbatim>\<open>AlreadyExists\<close> the client calls \<^verbatim>\<open>ListAgents\<close> with limit 100
  once, adopts the first listed agent of the name, and returns an error only when the
  listing failed or lists no agent of the name (\<open>Start_adoption\<close>); against the mock of
  the tests two successive calls return the same id (\<open>mock_Start_twice\<close>). The claim, the
  comment on \<^verbatim>\<open>Start\<close> ("This makes Start idempotent and safe to call on every startup")
  and \<^verbatim>\<open>TestRegister_Idempotent\<close> ask that of every backend that rejects duplicates. The
  client reads one page only. Against a control plane that honours the limit and holds
  a hundred agents of other names, the first \<^verbatim>\<open>Start\<close> registers \<^verbatim>\<open>agent-101\<close>; the second
  is rejected as a duplicate, does not find the agent among the hundred that are
  listed, and returns "already exists but could not be found".
\<close>

theorem Start_twice_beyond_the_page:
  "(case Start paged_registry s sample_opts (sample_client, crowded) of
      None \<Rightarrow> False
    | Some (res1, w1) \<Rightarrow>
        map_sum id ID res1 = Inr ''agent-101''
      \<and> AgentID (fst w1) = ''agent-101''
      \<and> (case Start paged_registry s sample_opts w1 of
            None \<Rightarrow> False
          | Some (res2, w2) \<Rightarrow>
              res2 = Inl (FmtQ (errorf ''agent '') ''a1''
                            '' already exists but could not be found'')))"
  by (cases s; hypsubst; code_simp)

subsection \<open>Backoff\<close>

lemma backoff_no_failures: "consecutiveFailures \<le> 0 \<Longrightarrow> backoff P rnd b m consecutiveFailures = b"
  by (simp add: backoff_def)

lemma backoff_lower: "b \<le> backoff P rnd b m f"
  by (simp add: backoff_def Let_def)

text \<open>
  Rounding. The bit length of a positive integer brackets it between two powers of two.
  A number that needs no more than 53 bits is kept as it is, and rounding never passes a
  \<^verbatim>\<open>float64\<close>: what is at most a representable number in absolute value stays so, with
  its sign.
\<close>

lemma bitlen_pos: "0 < x \<Longrightarrow> 1 \<le> bitlen x"
  by (simp add: bitlen_alt_def)

lemma bitlen_powi:
  assumes "0 < x"
  shows "2 powi (bitlen x - 1) \<le> real_of_int x" and "real_of_int x < 2 powi (bitlen x)"
proof -
  from bitlen_bounds [OF assms]
  have lo: "2 ^ nat (bitlen x - 1) \<le> x" and hi: "x < 2 ^ nat (bitlen x)"
    by auto
  from lo have "real_of_int (2 ^ nat (bitlen x - 1)) \<le> real_of_int x"
    by (simp only: of_int_le_iff)
  then show "2 powi (bitlen x - 1) \<le> real_of_int x"
    using bitlen_pos [OF assms] by (simp add: power_int_def)
  from hi have "real_of_int x < real_of_int (2 ^ nat (bitlen x))"
    by (simp only: of_int_less_iff)
  then show "real_of_int x < 2 powi (bitlen x)"
    using bitlen_pos [OF assms] by (simp add: power_int_def)
qed

lemma dyadic_bounds:
  assumes "0 < x"
  shows "2 powi (bitlen x - 1 + e) \<le> dyadic x e" and "dyadic x e < 2 powi (bitlen x + e)"
proof -
  have p: "(0 :: real) < 2 powi e"
    by simp
  have "2 powi (bitlen x - 1 + e) = 2 powi (bitlen x - 1) * (2 :: real) powi e"
    by (simp add: power_int_add)
  also have "\<dots> \<le> real_of_int x * 2 powi e"
    using bitlen_powi(1) [OF assms] p by (simp add: mult_right_mono)
  finally show "2 powi (bitlen x - 1 + e) \<le> dyadic x e"
    by (simp add: dyadic_def)
  have "dyadic x e < 2 powi (bitlen x) * 2 powi e"
    unfolding dyadic_def using bitlen_powi(2) [OF assms] p by (simp add: mult_strict_right_mono)
  also have "\<dots> = 2 powi (bitlen x + e)"
    by (simp add: power_int_add)
  finally show "dyadic x e < 2 powi (bitlen x + e)" .
qed

lemma powi2_less_imp: "(2 :: real) powi a < 2 powi b \<Longrightarrow> a < b"
  by (rule ccontr) (simp add: not_less power_int_increasing leD)

lemma dyadic_le_exponents:
  assumes "0 < x" and "0 < n" and "dyadic x e \<le> dyadic n k"
  shows "bitlen x + e \<le> bitlen n + k"
proof -
  have "2 powi (bitlen x - 1 + e) < (2 :: real) powi (bitlen n + k)"
    using dyadic_bounds(1) [OF assms(1), of e] dyadic_bounds(2) [OF assms(2), of k] assms(3)
    by linarith
  from powi2_less_imp [OF this] show ?thesis
    by simp
qed

lemma round64_exact:
  assumes "bitlen \<bar>m\<bar> \<le> 53" and "- 1074 \<le> e" and "bitlen \<bar>m\<bar> + e \<le> 1024" and "m \<noteq> 0"
  shows "round64 m e = Finite m e"
  using assms by (simp add: round64_def Let_def)


lemma dyadic_shift:
  assumes "g \<le> e"
  shows "dyadic (a * 2 ^ nat (e - g)) g = dyadic a e"
proof -
  have "(2 :: real) ^ nat (e - g) = 2 powi (e - g)"
    using assms by (simp add: power_int_def)
  then have "dyadic (a * 2 ^ nat (e - g)) g = real_of_int a * (2 powi (e - g) * 2 powi g)"
    by (simp add: dyadic_def)
  also have "2 powi (e - g) * (2 :: real) powi g = 2 powi e"
    by (simp flip: power_int_add)
  finally show ?thesis
    by (simp add: dyadic_def)
qed

lemma dyadic_mono: "a \<le> b \<Longrightarrow> dyadic a e \<le> dyadic b e"
  by (simp add: dyadic_def mult_right_mono)

lemma dyadic_le_cancel: "dyadic a e \<le> dyadic b e \<Longrightarrow> a \<le> b"
  by (simp add: dyadic_def)

lemma round64_bounded:
  assumes m: "m \<noteq> 0"
    and n: "0 < n" "bitlen n \<le> 53" "- 1074 \<le> k" "bitlen n + k \<le> 1024"
    and le: "dyadic \<bar>m\<bar> e \<le> dyadic n k"
  shows "\<exists>m' e'. round64 m e = Finite m' e' \<and> dyadic \<bar>m'\<bar> e' \<le> dyadic n k
            \<and> (0 < m \<longrightarrow> 0 \<le> m') \<and> (m < 0 \<longrightarrow> m' \<le> 0)"
proof -
  define L where "L = bitlen \<bar>m\<bar>"
  define q where "q = max (L + e - 53) (- 1074)"
  have mpos: "0 < \<bar>m\<bar>"
    using m by simp
  have Lk: "L + e \<le> bitlen n + k"
    unfolding L_def using dyadic_le_exponents [OF mpos n(1) le] .
  show ?thesis
  proof (cases "q \<le> e")
    case True
    have "L + e \<le> 1024"
      using Lk n(4) by linarith
    with True have "round64 m e = Finite m e"
      using m by (simp add: round64_def Let_def L_def [symmetric] q_def [symmetric])
    with le show ?thesis
      by auto
  next
    case False
    define d where "d = (2 :: int) ^ nat (q - e)"
    define a where "a = \<bar>m\<bar> div d"
    define r where "r = \<bar>m\<bar> mod d"
    define a' where "a' = (if d < 2 * r \<or> (2 * r = d \<and> odd a) then a + 1 else a)"
    define N where "N = n * 2 ^ nat (k - q)"
    have dpos: "0 < d"
      by (simp add: d_def)
    have qk: "q \<le> k"
      unfolding q_def using Lk n(2) n(3) by linarith
    have Nk: "dyadic N q = dyadic n k"
      unfolding N_def using dyadic_shift [OF qk] .
    have md: "dyadic (\<bar>m\<bar> * 2 ^ nat (q - q)) q = dyadic \<bar>m\<bar> q"
      by simp
    have eq: "e \<le> q"
      using False by simp
    have "dyadic (N * d) e = dyadic N q"
      unfolding d_def using dyadic_shift [OF eq] .
    with le Nk have "dyadic \<bar>m\<bar> e \<le> dyadic (N * d) e"
      by simp
    then have mN: "\<bar>m\<bar> \<le> N * d"
      by (rule dyadic_le_cancel)
    have decomp: "\<bar>m\<bar> = a * d + r"
      by (simp add: a_def r_def)
    have r0: "0 \<le> r" and rd: "r < d"
      using dpos by (simp_all add: r_def)
    have a0: "0 \<le> a"
      using dpos mpos by (simp add: a_def pos_imp_zdiv_nonneg_iff)
    have aN: "a \<le> N"
    proof (rule ccontr)
      assume "\<not> a \<le> N"
      then have "N + 1 \<le> a" by simp
      then have "(N + 1) * d \<le> a * d"
        using dpos by (simp add: mult_right_mono)
      with decomp r0 mN have "(N + 1) * d \<le> N * d"
        by linarith
      then show False
        using dpos by (simp add: algebra_simps)
    qed
    have a'N: "a' \<le> N"
    proof (cases "a' = a")
      case True
      with aN show ?thesis by simp
    next
      case False
      then have up: "a' = a + 1" and c: "d < 2 * r \<or> (2 * r = d \<and> odd a)"
        by (auto simp: a'_def split: if_splits)
      from c dpos have rpos: "0 < r"
        by auto
      have "a < N"
      proof (rule ccontr)
        assume "\<not> a < N"
        then have "N \<le> a" by simp
        then have "N * d \<le> a * d"
          using dpos by (simp add: mult_right_mono)
        with decomp rpos mN show False
          by linarith
      qed
      with up show ?thesis by simp
    qed
    have a'0: "0 \<le> a'"
      using a0 by (simp add: a'_def)
    have val: "dyadic a' q \<le> dyadic n k"
      using dyadic_mono [OF a'N, of q] Nk by simp
    have fin: "bitlen a' + q \<le> 1024"
    proof (cases "a' = 0")
      case True
      then show ?thesis
        using qk n(1) n(4) bitlen_pos [OF n(1)] by simp
    next
      case False
      with a'0 have "0 < a'" by simp
      from dyadic_le_exponents [OF this n(1) val] n(4) show ?thesis
        by linarith
    qed
    have res: "round64 m e = Finite (sgn m * a') q"
      unfolding round64_def Let_def
      unfolding L_def [symmetric] q_def [symmetric]
      unfolding d_def [symmetric]
      unfolding a_def [symmetric] r_def [symmetric]
      unfolding a'_def [symmetric]
      using m False fin by simp
    have "\<bar>sgn m * a'\<bar> = a'"
      using m a'0 by (simp add: abs_mult)
    with val have "dyadic \<bar>sgn m * a'\<bar> q \<le> dyadic n k"
      by simp
    moreover have "0 < m \<longrightarrow> 0 \<le> sgn m * a'"
      using a'0 by simp
    moreover have "m < 0 \<longrightarrow> sgn m * a' \<le> 0"
      using a'0 by (simp add: mult_le_0_iff)
    ultimately show ?thesis
      using res by blast
  qed
qed


lemma round64_below:
  assumes n: "0 < n" "bitlen n \<le> 53" "- 1074 \<le> k" "bitlen n + k \<le> 1024"
    and le: "dyadic \<bar>m\<bar> e \<le> dyadic n k"
  shows "\<exists>m' e'. round64 m e = Finite m' e' \<and> dyadic \<bar>m'\<bar> e' \<le> dyadic n k
            \<and> (0 \<le> m \<longrightarrow> 0 \<le> m') \<and> (m \<le> 0 \<longrightarrow> m' \<le> 0)"
proof (cases "m = 0")
  case True
  have "0 \<le> dyadic n k"
    using n(1) by (simp add: dyadic_def)
  with True show ?thesis
    by (simp add: round64_def dyadic_def)
next
  case False
  from round64_bounded [OF False n le]
  obtain m' e' where "round64 m e = Finite m' e'" and "dyadic \<bar>m'\<bar> e' \<le> dyadic n k"
    and "0 < m \<longrightarrow> 0 \<le> m'" and "m < 0 \<longrightarrow> m' \<le> 0"
    by blast
  moreover from False have "0 \<le> m \<longrightarrow> 0 < m" and "m \<le> 0 \<longrightarrow> m < 0"
    by auto
  ultimately show ?thesis
    by blast
qed

lemma dyadic_abs: "dyadic \<bar>m\<bar> e = \<bar>dyadic m e\<bar>"
  by (simp add: dyadic_def abs_mult)

lemma dyadic_diff: "dyadic (x - y) e = dyadic x e - dyadic y e"
  by (simp add: dyadic_def algebra_simps)

lemma dyadic_mult: "dyadic (a * b) (e + f) = dyadic a e * dyadic b f"
  by (simp add: dyadic_def power_int_add)

lemma bitlen_below:
  assumes "0 < x" and "x < 2 ^ w"
  shows "bitlen x \<le> int w"
proof -
  from bitlen_bounds [OF assms(1)] assms(2) have "(2 :: int) ^ nat (bitlen x - 1) < 2 ^ w"
    by linarith
  then have "nat (bitlen x - 1) < w"
    by simp
  then show ?thesis
    by linarith
qed

lemma truncation_bound:
  "\<bar>real_of_int (if 0 \<le> e then m * 2 ^ nat e else sgn m * (\<bar>m\<bar> div 2 ^ nat (- e)))\<bar>
     \<le> dyadic \<bar>m\<bar> e"
proof (cases "0 \<le> e")
  case True
  then show ?thesis
    by (simp add: dyadic_def power_int_def abs_mult)
next
  case False
  define D where "D = (2 :: int) ^ nat (- e)"
  have D: "0 < D"
    by (simp add: D_def)
  have "real_of_int (\<bar>m\<bar> div D) \<le> real_of_int \<bar>m\<bar> / real_of_int D"
    by (rule real_of_int_div4)
  also have "\<dots> = dyadic \<bar>m\<bar> e"
    using False by (simp add: dyadic_def D_def power_int_def field_simps)
  finally have "real_of_int (\<bar>m\<bar> div D) \<le> dyadic \<bar>m\<bar> e" .
  moreover have nonneg: "0 \<le> \<bar>m\<bar> div D"
    using D by (simp add: pos_imp_zdiv_nonneg_iff)
  moreover have "\<bar>sgn m * (\<bar>m\<bar> div D)\<bar> \<le> \<bar>m\<bar> div D"
    using nonneg by (simp add: abs_mult abs_sgn_eq)
  then have "real_of_int \<bar>sgn m * (\<bar>m\<bar> div D)\<bar> \<le> real_of_int (\<bar>m\<bar> div D)"
    by (simp only: of_int_le_iff)
  ultimately have "\<bar>real_of_int (sgn m * (\<bar>m\<bar> div D))\<bar> \<le> dyadic \<bar>m\<bar> e"
    by simp
  with False show ?thesis
    by (simp add: D_def)
qed

lemma Duration_of_float64_bound:
  assumes "dyadic \<bar>m\<bar> e \<le> B" and "B < 2 ^ 63"
  shows "\<bar>real_of_int (Duration_of_float64 P (Finite m e))\<bar> \<le> B"
proof -
  define t where "t = (if 0 \<le> e then m * 2 ^ nat e else sgn m * (\<bar>m\<bar> div 2 ^ nat (- e)))"
  have tb: "\<bar>real_of_int t\<bar> \<le> B"
    unfolding t_def using truncation_bound [of e m] assms(1) by linarith
  with assms(2) have "\<bar>real_of_int t\<bar> < real_of_int (2 ^ 63)"
    by simp
  then have "real_of_int \<bar>t\<bar> < real_of_int (2 ^ 63)"
    by simp
  then have "\<bar>t\<bar> < 2 ^ 63"
    by (simp only: of_int_less_iff)
  then have "- (2 ^ 63) \<le> t \<and> t < 2 ^ 63"
    by linarith
  then have "Duration_of_float64 P (Finite m e) = t"
    unfolding Duration_of_float64_def float64.case Let_def t_def [symmetric] by simp
  with tb show ?thesis
    by simp
qed

lemma float64_of_int_exact:
  assumes "0 < x" and "x < 2 ^ 53"
  shows "float64_of_int x = Finite x 0"
proof -
  have "bitlen \<bar>x\<bar> \<le> 53"
    using bitlen_below [OF assms] assms(1) by simp
  then show ?thesis
    unfolding float64_of_int_def using assms(1) by (intro round64_exact) simp_all
qed


text \<open>
  The upper bound. For a maximum below \<open>2^53\<close> nanoseconds (104 days) the interval is
  converted exactly, the jitter is at most a quarter of it in absolute value, and the
  sum does not wrap. So the result is at most 1.25 times the maximum whenever the
  conversion of the stretched interval is at least the base: that is so while the
  product is below \<open>2^63\<close>, and with the saturating conversion always.
\<close>

lemma bitlen_1: "bitlen 1 = 1"
  by (simp add: bitlen_alt_def)

lemma jitter_factor:
  assumes "0 \<le> k" and "dyadic k e < 1"
  shows "\<exists>ms es. fsub (fmul (Finite k e) (Finite 2 0)) (Finite 1 0) = Finite ms es
           \<and> dyadic \<bar>ms\<bar> es \<le> 1"
proof -
  have one: "dyadic 1 0 = 1" and two: "dyadic 1 1 = 2"
    by (simp_all add: dyadic_def)
  have "dyadic \<bar>k * 2\<bar> (e + 0) = dyadic k e * 2"
    using assms(1) by (simp add: dyadic_def)
  also have "\<dots> \<le> dyadic 1 1"
    using assms(2) two by simp
  finally have "dyadic \<bar>k * 2\<bar> (e + 0) \<le> dyadic 1 1" .
  from round64_below [of 1 1 "k * 2" "e + 0", OF _ _ _ _ this]
  obtain m1 e1 where r1: "round64 (k * 2) (e + 0) = Finite m1 e1"
    and b1: "dyadic \<bar>m1\<bar> e1 \<le> dyadic 1 1" and s1: "0 \<le> m1"
    using assms(1) by (auto simp: bitlen_1)
  define g where "g = min e1 0"
  define N where "N = m1 * 2 ^ nat (e1 - g) - 2 ^ nat (- g)"
  have g0: "g \<le> 0" and ge: "g \<le> e1"
    by (simp_all add: g_def)
  have "dyadic N g = dyadic (m1 * 2 ^ nat (e1 - g)) g - dyadic (2 ^ nat (- g)) g"
    unfolding N_def by (rule dyadic_diff)
  also have "dyadic (m1 * 2 ^ nat (e1 - g)) g = dyadic m1 e1"
    using ge by (rule dyadic_shift)
  also have "dyadic (2 ^ nat (- g)) g = dyadic 1 0"
    using dyadic_shift [OF g0, of 1] by simp
  finally have Ng: "dyadic N g = dyadic m1 e1 - 1"
    using one by simp
  have "0 \<le> dyadic m1 e1"
    using s1 by (simp add: dyadic_def)
  moreover have "dyadic m1 e1 \<le> 2"
    using b1 s1 two by simp
  ultimately have "\<bar>dyadic N g\<bar> \<le> 1"
    unfolding Ng by (simp add: abs_le_iff)
  then have "dyadic \<bar>N\<bar> g \<le> dyadic 1 0"
    using one by (simp add: dyadic_abs)
  from round64_below [of 1 0 N g, OF _ _ _ _ this]
  obtain ms es where r2: "round64 N g = Finite ms es" and b2: "dyadic \<bar>ms\<bar> es \<le> dyadic 1 0"
    by (auto simp: bitlen_1)
  have "fsub (fmul (Finite k e) (Finite 2 0)) (Finite 1 0) = Finite ms es"
    using r1 r2 by (simp add: Let_def g_def [symmetric] N_def [symmetric])
  with b2 one show ?thesis
    by auto
qed

lemma stretch_in_range:
  assumes b: "0 < b" "b < 2 ^ 53" and f: "0 < f" and fits: "b * 2 ^ nat f < 2 ^ 63"
  shows "Duration_of_float64 P (fmul (float64_of_int b) (Pow2 f)) = b * 2 ^ nat f"
proof -
  have "(2 :: int) ^ nat f \<le> b * 2 ^ nat f"
    using b(1) by simp
  with fits have "(2 :: int) ^ nat f < 2 ^ 63"
    by linarith
  then have "nat f < 63"
    by (rule power_less_imp_less_exp [rotated]) simp
  with f have f63: "f < 63"
    by linarith
  have bl: "bitlen \<bar>b\<bar> \<le> 53"
    using bitlen_below [OF b] b(1) by simp
  have "fmul (float64_of_int b) (Pow2 f) = round64 b f"
    using f63 by (simp add: float64_of_int_exact [OF b] Pow2_def)
  also have "\<dots> = Finite b f"
    using bl f f63 b(1) by (intro round64_exact) simp_all
  finally have "fmul (float64_of_int b) (Pow2 f) = Finite b f" .
  moreover have "0 \<le> b * 2 ^ nat f"
    using b(1) by simp
  ultimately show ?thesis
    using f fits by (simp add: Duration_of_float64_def Let_def)
qed

lemma jitter_bound:
  assumes i1_pos: "0 < i1" and i1_53: "i1 < 2 ^ 53" and r: "0 \<le> k" "dyadic k e < 1"
  shows "\<bar>real_of_int
           (Duration_of_float64 P
              (fmul (fmul (float64_of_int i1) (Finite 1 (- 2)))
                    (fsub (fmul (Finite k e) (Finite 2 0)) (Finite 1 0))))\<bar>
         \<le> real_of_int i1 / 4"
proof -
  define y where "y = fmul (fmul (float64_of_int i1) (Finite 1 (- 2)))
                           (fsub (fmul (Finite k e) (Finite 2 0)) (Finite 1 0))"
  have quarter: "dyadic i1 (- 2) = real_of_int i1 / 4"
    by (simp add: dyadic_def power_int_minus field_simps)
  from jitter_factor [OF r]
  obtain ms es where s: "fsub (fmul (Finite k e) (Finite 2 0)) (Finite 1 0) = Finite ms es"
    and sb: "dyadic \<bar>ms\<bar> es \<le> 1"
    by blast
  have bl: "bitlen \<bar>i1\<bar> \<le> 53"
    using bitlen_below [OF i1_pos i1_53] i1_pos by simp
  have bl': "bitlen i1 \<le> 53"
    using bl i1_pos by simp
  have q: "fmul (float64_of_int i1) (Finite 1 (- 2)) = Finite i1 (- 2)"
  proof -
    have "fmul (float64_of_int i1) (Finite 1 (- 2)) = round64 i1 (- 2)"
      by (simp add: float64_of_int_exact [OF i1_pos i1_53])
    also have "\<dots> = Finite i1 (- 2)"
      using bl i1_pos by (intro round64_exact) simp_all
    finally show ?thesis .
  qed
  have y: "y = round64 (i1 * ms) (- 2 + es)"
    unfolding y_def q s by simp
  have "abs (i1 * ms) = i1 * abs ms"
    using i1_pos by (simp add: abs_mult)
  then have "dyadic (abs (i1 * ms)) (- 2 + es) = dyadic (i1 * abs ms) (- 2 + es)"
    by simp
  also have "\<dots> = dyadic i1 (- 2) * dyadic (abs ms) es"
    by (rule dyadic_mult)
  also have "\<dots> \<le> dyadic i1 (- 2) * 1"
    using sb i1_pos by (intro mult_left_mono) (simp_all add: dyadic_def)
  finally have "dyadic (abs (i1 * ms)) (- 2 + es) \<le> dyadic i1 (- 2)"
    by simp
  from round64_below [OF i1_pos bl' _ _ this]
  obtain mj ej where yj: "y = Finite mj ej" and jb: "dyadic \<bar>mj\<bar> ej \<le> dyadic i1 (- 2)"
    using bl' unfolding y by auto
  have "real_of_int i1 < real_of_int (2 ^ 53)"
    using i1_53 by (simp only: of_int_less_iff)
  then have "real_of_int i1 / 4 < 2 ^ 63"
    by simp
  from Duration_of_float64_bound [OF jb [unfolded quarter] this, of P]
  show ?thesis
    unfolding y_def [symmetric] by (simp add: yj)
qed

lemma backoff_capped:
  assumes b: "0 < b" and bm: "b \<le> m" and m: "m < 2 ^ 53"
    and r: "0 \<le> k" "dyadic k e < 1" and f: "0 < f"
    and stretched: "b \<le> Duration_of_float64 P (fmul (float64_of_int b) (Pow2 f))"
  shows "real_of_int (backoff P (Finite k e) b m f) \<le> 5 / 4 * real_of_int m"
proof -
  define i0 where "i0 = Duration_of_float64 P (fmul (float64_of_int b) (Pow2 f))"
  define i1 where "i1 = (if i0 > m then m else i0)"
  define j where "j = Duration_of_float64 P
                        (fmul (fmul (float64_of_int i1) (Finite 1 (- 2)))
                              (fsub (fmul (Finite k e) (Finite 2 0)) (Finite 1 0)))"
  have i0_ge: "b \<le> i0"
    unfolding i0_def using stretched .
  have i1_lo: "b \<le> i1" and i1_hi: "i1 \<le> m"
    unfolding i1_def using i0_ge bm by auto
  have i1_pos: "0 < i1"
    using i1_lo b by linarith
  have i1_53: "i1 < 2 ^ 53"
    using i1_hi m by linarith
  have j_abs: "\<bar>real_of_int j\<bar> \<le> real_of_int i1 / 4"
    unfolding j_def using i1_pos i1_53 r by (rule jitter_bound)
  have "real_of_int i1 < real_of_int (2 ^ 53)"
    using i1_53 by (simp only: of_int_less_iff)
  then have i1_real: "real_of_int i1 < 2 ^ 53"
    by simp
  have sum_hi: "real_of_int (i1 + j) \<le> 5 / 4 * real_of_int i1"
    using j_abs by (simp add: abs_le_iff)
  have sum_lo: "0 \<le> real_of_int (i1 + j)"
    using j_abs i1_pos by (simp add: abs_le_iff)
  have "real_of_int (i1 + j) < 2 ^ 63"
    using sum_hi i1_real by simp
  then have "real_of_int (i1 + j) < real_of_int (2 ^ 63)"
    by simp
  then have "i1 + j < 2 ^ 63"
    by (simp only: of_int_less_iff)
  moreover have "0 \<le> i1 + j"
    using sum_lo by (simp only: of_int_0_le_iff)
  ultimately have wrap: "int64 (i1 + j) = i1 + j"
    by (intro int64_in_range) simp_all
  have res: "backoff P (Finite k e) b m f = (if i1 + j < b then b else i1 + j)"
    using f unfolding backoff_def Let_def i0_def [symmetric]
      i1_def [symmetric] j_def [symmetric]
    by (simp add: wrap)
  have m_real: "real_of_int i1 \<le> real_of_int m"
    using i1_hi by simp
  have "real_of_int (i1 + j) \<le> 5 / 4 * real_of_int m"
    using sum_hi m_real by linarith
  moreover have "real_of_int b \<le> 5 / 4 * real_of_int m"
  proof -
    have "real_of_int b \<le> real_of_int m" using bm by simp
    moreover have "0 < real_of_int m" using b bm by simp
    ultimately show ?thesis by linarith
  qed
  ultimately show ?thesis
    unfolding res by simp
qed

lemma backoff_upper_in_range:
  assumes b: "0 < b" and bm: "b \<le> m" and m: "m < 2 ^ 53"
    and r: "0 \<le> k" "dyadic k e < 1" and f: "0 < f"
    and fits: "b * 2 ^ nat f < 2 ^ 63"
  shows "real_of_int (backoff P (Finite k e) b m f) \<le> 5 / 4 * real_of_int m"
proof -
  have b53: "b < 2 ^ 53"
    using bm m by linarith
  have "b * 1 \<le> b * 2 ^ nat f"
    using b by (intro mult_left_mono) simp_all
  then have "b \<le> Duration_of_float64 P (fmul (float64_of_int b) (Pow2 f))"
    by (simp add: stretch_in_range [OF b b53 f fits])
  with b bm m r f show ?thesis
    by (rule backoff_capped)
qed

lemma stretch_arm64:
  assumes b: "0 < b" "b < 2 ^ 53" and f: "0 < f"
  shows "b \<le> Duration_of_float64 arm64 (fmul (float64_of_int b) (Pow2 f))"
proof -
  have small: "b \<le> 2 ^ 63 - 1"
    using b(2) by simp
  have bl: "bitlen \<bar>b\<bar> \<le> 53"
    using bitlen_below [OF b] b(1) by simp
  have inf: "Duration_of_float64 arm64 PosInf = 2 ^ 63 - 1"
    by (simp add: Duration_of_float64_def arm64_def)
  show ?thesis
  proof (cases "1023 < f")
    case True
    then have "fmul (float64_of_int b) (Pow2 f) = PosInf"
      using b(1) by (simp add: float64_of_int_exact [OF b] Pow2_def)
    with inf small show ?thesis
      by simp
  next
    case False
    then have prod: "fmul (float64_of_int b) (Pow2 f) = round64 b f"
      by (simp add: float64_of_int_exact [OF b] Pow2_def)
    show ?thesis
    proof (cases "1024 < bitlen \<bar>b\<bar> + f")
      case True
      then have "round64 b f = PosInf"
        using b(1) bl f by (simp add: round64_def Let_def)
      with prod inf small show ?thesis
        by simp
    next
      case False
      then have "round64 b f = Finite b f"
        using bl f b(1) by (intro round64_exact) simp_all
      with prod have p: "fmul (float64_of_int b) (Pow2 f) = Finite b f"
        by simp
      have "b * 1 \<le> b * 2 ^ nat f"
        using b(1) by (intro mult_left_mono) simp_all
      then have ge: "b \<le> b * 2 ^ nat f"
        by simp
      show ?thesis
        using f b(1) ge small
        by (simp add: p Duration_of_float64_def Let_def arm64_def)
    qed
  qed
qed

lemma backoff_upper_arm64:
  assumes b: "0 < b" and bm: "b \<le> m" and m: "m < 2 ^ 53"
    and r: "0 \<le> k" "dyadic k e < 1" and f: "0 < f"
  shows "real_of_int (backoff arm64 (Finite k e) b m f) \<le> 5 / 4 * real_of_int m"
proof -
  have b53: "b < 2 ^ 53"
    using bm m by linarith
  from b bm m r f stretch_arm64 [OF b b53 f] show ?thesis
    by (rule backoff_capped)
qed

lemma backoff_29_amd64:
  "backoff amd64 (Finite 3 (- 2)) (30 * Second) maxHeartbeatInterval 29 = 8070450532247928832"
  by code_simp

lemma backoff_29_arm64:
  "backoff arm64 (Finite 3 (- 2)) (30 * Second) maxHeartbeatInterval 29 = 337500000000"
  by code_simp

text \<open>
  Claim C3 bounds the result by the base interval below and by 1.25 times the maximum
  above, for every number of failures. The first part of the claim holds
  (\<open>backoff_no_failures\<close>), the lower bound holds (\<open>backoff_lower\<close>), and for a maximum
  below \<open>2^53\<close> nanoseconds the upper bound holds while the product of the base and
  \<open>2^failures\<close> is below \<open>2^63\<close> (\<open>backoff_upper_in_range\<close>). Beyond that the conversion
  to \<^verbatim>\<open>time.Duration\<close> is out of range. With the heartbeat's intervals of 30 seconds and
  5 minutes this happens at the 29th consecutive failure: on amd64 the interval becomes
  the least \<^verbatim>\<open>int64\<close>, the comparison with the maximum does not cap it, and with
  \<^verbatim>\<open>rand.Float64() = 0.75\<close> the jitter of \<open>- 2^60\<close> wraps the sum around to \<open>2^63 - 2^60\<close>
  nanoseconds, about 256 years. With a saturating conversion (arm64) the same call
  returns 337.5 seconds, and the upper bound holds for every number of failures
  (\<open>backoff_upper_arm64\<close>).
\<close>

theorem backoff_overflow_amd64:
  "backoff amd64 (Finite 3 (- 2)) (30 * Second) maxHeartbeatInterval 29 = 8070450532247928832
   \<and> \<not> (real_of_int (backoff amd64 (Finite 3 (- 2)) (30 * Second) maxHeartbeatInterval 29)
          \<le> 5 / 4 * real_of_int maxHeartbeatInterval)
   \<and> backoff arm64 (Finite 3 (- 2)) (30 * Second) maxHeartbeatInterval 29 = 337500000000"
  unfolding backoff_29_amd64 backoff_29_arm64
  by (simp add: maxHeartbeatInterval_def Minute_def Second_def)

end
